theory Spec2Isabelle
  imports Main
begin

section \<open>Reification of template IR operations (\<^verbatim>\<open>phases/reify.ts\<close>)\<close>

text \<open>
  The pass \<^verbatim>\<open>phaseReify\<close> walks the create and update operation lists of every
  compilation unit of a job, rewrites the IR expressions inside each operation and
  replaces the operation by a statement operation that wraps a call of a runtime
  instruction. A \<^verbatim>\<open>throw new Error(...)\<close> of the source is a value \<open>Inl e\<close> of
  the result type \<open>error + 'a\<close>; a normal return is \<open>Inr\<close>.
\<close>

subsection \<open>Errors\<close>

type_synonym XrefId = nat

text \<open>The kind tags of \<^verbatim>\<open>ir.OpKind\<close> that \<^verbatim>\<open>reify.ts\<close> names, and
  \<open>OtherKind n\<close> for the member number \<open>n\<close> of the enumeration that it does not name.\<close>

datatype OpKind =
    Text | ElementStart | Element | ElementEnd | ContainerStart | Container | ContainerEnd
  | Template | Pipe | Listener | Variable | Statement
  | Advance | Property | StyleProp | ClassProp | StyleMap | ClassMap | InterpolateText
  | Attribute | HostProperty
  | OtherKind nat

text \<open>One constructor for each \<^verbatim>\<open>throw\<close> of the source, carrying what its message
  interpolates. \<open>TypeError\<close> is the error of the JavaScript runtime on reading a property
  of \<^verbatim>\<open>undefined\<close> (the result of \<^verbatim>\<open>views.get\<close> on an absent key).\<close>

datatype error =
    MustBeCompilingComponent
  | UnnamedVariable XrefId
  | UnsupportedCreateOp OpKind
  | UnsupportedUpdateOp OpKind
  | NotYetHandled
  | UnresolvedLexicalRead string
  | UnresolvedRestoreView
  | ReadOfUnnamedVariable XrefId
  | ReadOfUnnamedTemporary XrefId
  | AssignOfUnnamedTemporary XrefId
  | ExpectedPureFunctionsExtracted
  | ExpectedPureFunctionParameterExprExtracted
  | UnsupportedIrExpressionKind nat
  | ExpectedReifiedStatements OpKind
  | TypeError

definition bindE :: "error + 'a \<Rightarrow> ('a \<Rightarrow> error + 'b) \<Rightarrow> error + 'b" where
  "bindE m f = (case m of Inl e \<Rightarrow> Inl e | Inr x \<Rightarrow> f x)"

subsection \<open>JavaScript numbers\<close>

text \<open>
  The numbers of the operations and expressions (slots, offsets, counts) are integers;
  an integer of the model stands for the JavaScript number of that value. JavaScript adds
  two numbers as IEEE 754 doubles: the sum is the exact sum rounded to the nearest double,
  to the one with the even significand when two are equally near, and it is
  \<^verbatim>\<open>Infinity\<close> or \<^verbatim>\<open>-Infinity\<close> when the rounded magnitude reaches \<open>2 ^ 1024\<close>.
  An integer of magnitude up to \<open>2 ^ 53\<close> is a double; a greater one is rounded to 53
  significant bits. \<open>NumInfinity True\<close> is \<^verbatim>\<open>Infinity\<close>, \<open>NumInfinity False\<close> is
  \<^verbatim>\<open>-Infinity\<close>; a sum with an infinite left operand and a finite right one is that
  infinite operand.
\<close>

datatype jsnumber = NumInt int | NumInfinity bool

fun bitLength :: "nat \<Rightarrow> nat" where
  "bitLength n = (if n = 0 then 0 else Suc (bitLength (n div 2)))"

declare bitLength.simps [simp del]

definition roundToDouble :: "int \<Rightarrow> jsnumber" where
  "roundToDouble x =
     (let m = nat \<bar>x\<bar> in
      if m \<le> 2 ^ 53 then NumInt x
      else
        let e = bitLength m - 53;
            q = m div 2 ^ e;
            r = m mod 2 ^ e;
            q' = (if 2 ^ e < 2 * r \<or> (2 * r = 2 ^ e \<and> odd q) then q + 1 else q);
            y = q' * 2 ^ e
        in if 2 ^ 1024 \<le> y then NumInfinity (0 < x) else NumInt (sgn x * int y))"

fun jsAdd :: "jsnumber \<Rightarrow> int \<Rightarrow> jsnumber" where
  "jsAdd (NumInt a) b = roundToDouble (a + b)"
| "jsAdd (NumInfinity positive) b = NumInfinity positive"

subsection \<open>The output AST and the IR expressions\<close>

datatype ParseSourceSpan = ParseSourceSpan nat nat

datatype StmtModifier = NoModifier | Final | Private | Exported | Static

datatype FnParam = FnParam string

datatype literal = LNull | LBool bool | LNum int | LStr string

text \<open>The runtime instructions, one for each builder of the namespace \<^verbatim>\<open>ng\<close> that
  \<^verbatim>\<open>reify.ts\<close> calls.\<close>

datatype Instruction =
    I_text | I_elementStart | I_element | I_elementEnd | I_elementContainerStart
  | I_elementContainer | I_elementContainerEnd | I_template | I_pipe | I_listener
  | I_advance | I_property | I_propertyInterpolate | I_styleProp | I_stylePropInterpolate
  | I_classProp | I_styleMap | I_styleMapInterpolate | I_classMap | I_classMapInterpolate
  | I_textInterpolate | I_attribute | I_attributeInterpolate | I_hostProperty
  | I_nextContext | I_reference | I_restoreView | I_resetView | I_getCurrentView
  | I_pureFunction | I_pipeBind | I_pipeBindV

text \<open>
  Modelled from the spec: the module \<^verbatim>\<open>output_ast\<close>, the IR expression classes of
  \<^verbatim>\<open>ir\<close> and the instruction builders of \<^verbatim>\<open>ng\<close> are not part of the sources at
  hand. An expression is either a final expression of the output AST or an IR expression.

  Final expressions: \<open>ReadVarExpr\<close> (what \<^verbatim>\<open>o.variable\<close> builds), \<open>WriteVarExpr\<close>
  (what \<^verbatim>\<open>.set\<close> builds), \<open>LiteralExpr\<close>, \<open>FunctionExpr\<close> (what \<^verbatim>\<open>o.fn\<close>
  builds: parameters, body, name), \<open>OutputExpr c es\<close> for a node of any other class \<open>c\<close>
  of the output AST with its child expressions \<open>es\<close>, and \<open>InstructionCall i as\<close>, the
  instruction call that the builder of instruction \<open>i\<close> returns on the arguments \<open>as\<close>
  (the arguments are recorded as the builder received them: \<open>ArgNum\<close> a number or
  \<^verbatim>\<open>null\<close>, \<open>ArgInfinity\<close> the number \<^verbatim>\<open>Infinity\<close> or \<^verbatim>\<open>-Infinity\<close>,
  \<open>ArgStr\<close> a string or \<^verbatim>\<open>null\<close>, \<open>ArgStrs\<close> an array of strings, \<open>ArgExpr\<close>
  an expression, \<open>ArgExprs\<close> an array of expressions, \<open>ArgSpan\<close> a source span or
  \<^verbatim>\<open>null\<close>).

  IR expressions: one constructor for each \<^verbatim>\<open>ir.ExpressionKind\<close> that
  \<^verbatim>\<open>reifyIrExpression\<close> names, with the fields it reads, and \<open>OtherIrExpr n es\<close> for
  an IR expression of the member number \<open>n\<close> of the enumeration that it does not name, with
  child expressions \<open>es\<close>. The field \<^verbatim>\<open>view\<close> of a restore-view expression is a number
  or an expression: \<open>RestoreViewExpr_number\<close> and \<open>RestoreViewExpr_expr\<close> are the two
  cases of the one kind \<^verbatim>\<open>RestoreView\<close>. A field that the source reads with \<^verbatim>\<open>!\<close>
  or compares with \<^verbatim>\<open>null\<close> is an \<open>option\<close>.
\<close>

datatype expr =
    ReadVarExpr "string option"
  | WriteVarExpr string expr
  | LiteralExpr literal
  | FunctionExpr "FnParam list" "stmt list" "string option"
  | OutputExpr string "expr list"
  | InstructionCall Instruction "arg list"
  | NextContextExpr int
  | ReferenceExpr "int option" int
  | LexicalReadExpr string
  | RestoreViewExpr_number XrefId
  | RestoreViewExpr_expr expr
  | ResetViewExpr expr
  | GetCurrentViewExpr
  | ReadVariableExpr XrefId "string option"
  | ReadTemporaryExpr XrefId "string option"
  | AssignTemporaryExpr expr XrefId "string option"
  | PureFunctionExpr "int option" "expr option" "expr list"
  | PureFunctionParameterExpr nat
  | PipeBindingExpr "int option" "int option" "expr list"
  | PipeBindingVariadicExpr "int option" "int option" "expr list"
  | OtherIrExpr nat "expr list"
and arg =
    ArgNum "int option"
  | ArgStr "string option"
  | ArgStrs "string list"
  | ArgExpr expr
  | ArgExprs "expr list"
  | ArgSpan "ParseSourceSpan option"
  | ArgInfinity bool
and stmt =
    ExpressionStatement expr
  | DeclareVarStmt string "expr option" StmtModifier
  | ReturnStatement expr

text \<open>\<^verbatim>\<open>ir.isIrExpression\<close>: whether the node itself is an IR expression.\<close>

fun isIrExpression :: "expr \<Rightarrow> bool" where
  "isIrExpression (ReadVarExpr n) = False"
| "isIrExpression (WriteVarExpr n e) = False"
| "isIrExpression (LiteralExpr l) = False"
| "isIrExpression (FunctionExpr ps ss n) = False"
| "isIrExpression (OutputExpr c es) = False"
| "isIrExpression (InstructionCall i as) = False"
| "isIrExpression _ = True"

subsection \<open>The instruction builders\<close>

text \<open>
  Modelled from the spec: the builders of \<^verbatim>\<open>ng\<close> (\<^verbatim>\<open>instruction.ts\<close> is not part
  of the sources at hand) that return an expression. Each returns the call of its
  instruction on the arguments it was given, in the order of its parameters.
\<close>

definition ng_nextContext :: "int \<Rightarrow> expr" where
  "ng_nextContext steps = InstructionCall I_nextContext [ArgNum (Some steps)]"

fun numberArg :: "jsnumber \<Rightarrow> arg" where
  "numberArg (NumInt n) = ArgNum (Some n)"
| "numberArg (NumInfinity positive) = ArgInfinity positive"

definition ng_reference :: "jsnumber \<Rightarrow> expr" where
  "ng_reference slot = InstructionCall I_reference [numberArg slot]"

definition ng_restoreView :: "expr \<Rightarrow> expr" where
  "ng_restoreView savedView = InstructionCall I_restoreView [ArgExpr savedView]"

definition ng_resetView :: "expr \<Rightarrow> expr" where
  "ng_resetView returnValue = InstructionCall I_resetView [ArgExpr returnValue]"

definition ng_getCurrentView :: "expr" where
  "ng_getCurrentView = InstructionCall I_getCurrentView []"

definition ng_pureFunction :: "int option \<Rightarrow> expr \<Rightarrow> expr list \<Rightarrow> expr" where
  "ng_pureFunction varOffset fn args =
     InstructionCall I_pureFunction [ArgNum varOffset, ArgExpr fn, ArgExprs args]"

definition ng_pipeBind :: "int option \<Rightarrow> int option \<Rightarrow> expr list \<Rightarrow> expr" where
  "ng_pipeBind slot varOffset args =
     InstructionCall I_pipeBind [ArgNum slot, ArgNum varOffset, ArgExprs args]"

definition ng_pipeBindV :: "int option \<Rightarrow> int option \<Rightarrow> expr list \<Rightarrow> expr" where
  "ng_pipeBindV slot varOffset args =
     InstructionCall I_pipeBindV [ArgNum slot, ArgNum varOffset, ArgExprs args]"

subsection \<open>The expression rewriter\<close>

text \<open>
  \<^verbatim>\<open>reifyIrExpression\<close>. The first six equations are the early return on an expression
  that is not an IR expression; the others follow the \<^verbatim>\<open>switch\<close> in its order, the
  last one being its \<^verbatim>\<open>default\<close>. In \<^verbatim>\<open>expr.slot! + 1 + expr.offset\<close> a slot that
  is \<^verbatim>\<open>null\<close> counts as 0, as JavaScript's \<^verbatim>\<open>+\<close> has it, and the two additions are
  those of JavaScript numbers, from left to right.
\<close>

fun reifyIrExpression :: "expr \<Rightarrow> error + expr" where
  "reifyIrExpression (ReadVarExpr n) = Inr (ReadVarExpr n)"
| "reifyIrExpression (WriteVarExpr n e) = Inr (WriteVarExpr n e)"
| "reifyIrExpression (LiteralExpr l) = Inr (LiteralExpr l)"
| "reifyIrExpression (FunctionExpr ps ss n) = Inr (FunctionExpr ps ss n)"
| "reifyIrExpression (OutputExpr c es) = Inr (OutputExpr c es)"
| "reifyIrExpression (InstructionCall i as) = Inr (InstructionCall i as)"
| "reifyIrExpression (NextContextExpr steps) = Inr (ng_nextContext steps)"
| "reifyIrExpression (ReferenceExpr slot offset) =
     Inr (ng_reference
            (jsAdd (jsAdd (NumInt (case slot of None \<Rightarrow> 0 | Some s \<Rightarrow> s)) 1) offset))"
| "reifyIrExpression (LexicalReadExpr name) = Inl (UnresolvedLexicalRead name)"
| "reifyIrExpression (RestoreViewExpr_number v) = Inl UnresolvedRestoreView"
| "reifyIrExpression (RestoreViewExpr_expr v) = Inr (ng_restoreView v)"
| "reifyIrExpression (ResetViewExpr e) = Inr (ng_resetView e)"
| "reifyIrExpression GetCurrentViewExpr = Inr ng_getCurrentView"
| "reifyIrExpression (ReadVariableExpr x name) =
     (case name of None \<Rightarrow> Inl (ReadOfUnnamedVariable x)
      | Some n \<Rightarrow> Inr (ReadVarExpr (Some n)))"
| "reifyIrExpression (ReadTemporaryExpr x name) =
     (case name of None \<Rightarrow> Inl (ReadOfUnnamedTemporary x)
      | Some n \<Rightarrow> Inr (ReadVarExpr (Some n)))"
| "reifyIrExpression (AssignTemporaryExpr e x name) =
     (case name of None \<Rightarrow> Inl (AssignOfUnnamedTemporary x)
      | Some n \<Rightarrow> Inr (WriteVarExpr n e))"
| "reifyIrExpression (PureFunctionExpr varOffset fn args) =
     (case fn of None \<Rightarrow> Inl ExpectedPureFunctionsExtracted
      | Some f \<Rightarrow> Inr (ng_pureFunction varOffset f args))"
| "reifyIrExpression (PureFunctionParameterExpr i) =
     Inl ExpectedPureFunctionParameterExprExtracted"
| "reifyIrExpression (PipeBindingExpr slot varOffset args) =
     Inr (ng_pipeBind slot varOffset args)"
| "reifyIrExpression (PipeBindingVariadicExpr slot varOffset args) =
     Inr (ng_pipeBindV slot varOffset args)"
| "reifyIrExpression (OtherIrExpr k es) = Inl (UnsupportedIrExpressionKind k)"

text \<open>
  Modelled from the spec: the utility \<^verbatim>\<open>ir.transformExpressionsInOp\<close> is not part of
  the sources at hand; it ``walks an operation's expression subtrees and applies a given
  substitution function bottom-up''. On an expression: the children are transformed
  first, from left to right, and the function \<open>t\<close> is applied to the node rebuilt from
  them; the first error ends the walk. The flags argument, which
  \<^verbatim>\<open>reifyIrExpression\<close> does not take, is left out.
\<close>

fun transformExpressionsInExpression :: "(expr \<Rightarrow> error + expr) \<Rightarrow> expr \<Rightarrow> error + expr"
  and transformExpressionsInExprs :: "(expr \<Rightarrow> error + expr) \<Rightarrow> expr list \<Rightarrow> error + expr list"
  and transformExpressionsInArg :: "(expr \<Rightarrow> error + expr) \<Rightarrow> arg \<Rightarrow> error + arg"
  and transformExpressionsInArgs :: "(expr \<Rightarrow> error + expr) \<Rightarrow> arg list \<Rightarrow> error + arg list"
  and transformExpressionsInStatement :: "(expr \<Rightarrow> error + expr) \<Rightarrow> stmt \<Rightarrow> error + stmt"
  and transformExpressionsInStatements :: "(expr \<Rightarrow> error + expr) \<Rightarrow> stmt list \<Rightarrow> error + stmt list"
where
  "transformExpressionsInExpression t (ReadVarExpr n) = t (ReadVarExpr n)"
| "transformExpressionsInExpression t (WriteVarExpr n e) =
     bindE (transformExpressionsInExpression t e) (\<lambda>e'. t (WriteVarExpr n e'))"
| "transformExpressionsInExpression t (LiteralExpr l) = t (LiteralExpr l)"
| "transformExpressionsInExpression t (FunctionExpr ps ss n) =
     bindE (transformExpressionsInStatements t ss) (\<lambda>ss'. t (FunctionExpr ps ss' n))"
| "transformExpressionsInExpression t (OutputExpr c es) =
     bindE (transformExpressionsInExprs t es) (\<lambda>es'. t (OutputExpr c es'))"
| "transformExpressionsInExpression t (InstructionCall i as) =
     bindE (transformExpressionsInArgs t as) (\<lambda>as'. t (InstructionCall i as'))"
| "transformExpressionsInExpression t (NextContextExpr steps) = t (NextContextExpr steps)"
| "transformExpressionsInExpression t (ReferenceExpr slot offset) = t (ReferenceExpr slot offset)"
| "transformExpressionsInExpression t (LexicalReadExpr name) = t (LexicalReadExpr name)"
| "transformExpressionsInExpression t (RestoreViewExpr_number v) = t (RestoreViewExpr_number v)"
| "transformExpressionsInExpression t (RestoreViewExpr_expr v) =
     bindE (transformExpressionsInExpression t v) (\<lambda>v'. t (RestoreViewExpr_expr v'))"
| "transformExpressionsInExpression t (ResetViewExpr e) =
     bindE (transformExpressionsInExpression t e) (\<lambda>e'. t (ResetViewExpr e'))"
| "transformExpressionsInExpression t GetCurrentViewExpr = t GetCurrentViewExpr"
| "transformExpressionsInExpression t (ReadVariableExpr x name) = t (ReadVariableExpr x name)"
| "transformExpressionsInExpression t (ReadTemporaryExpr x name) = t (ReadTemporaryExpr x name)"
| "transformExpressionsInExpression t (AssignTemporaryExpr e x name) =
     bindE (transformExpressionsInExpression t e) (\<lambda>e'. t (AssignTemporaryExpr e' x name))"
| "transformExpressionsInExpression t (PureFunctionExpr varOffset fn args) =
     bindE (case fn of None \<Rightarrow> Inr None
            | Some f \<Rightarrow> bindE (transformExpressionsInExpression t f) (\<lambda>f'. Inr (Some f')))
       (\<lambda>fn'. bindE (transformExpressionsInExprs t args)
         (\<lambda>args'. t (PureFunctionExpr varOffset fn' args')))"
| "transformExpressionsInExpression t (PureFunctionParameterExpr i) =
     t (PureFunctionParameterExpr i)"
| "transformExpressionsInExpression t (PipeBindingExpr slot varOffset args) =
     bindE (transformExpressionsInExprs t args)
       (\<lambda>args'. t (PipeBindingExpr slot varOffset args'))"
| "transformExpressionsInExpression t (PipeBindingVariadicExpr slot varOffset args) =
     bindE (transformExpressionsInExprs t args)
       (\<lambda>args'. t (PipeBindingVariadicExpr slot varOffset args'))"
| "transformExpressionsInExpression t (OtherIrExpr k es) =
     bindE (transformExpressionsInExprs t es) (\<lambda>es'. t (OtherIrExpr k es'))"
| "transformExpressionsInExprs t [] = Inr []"
| "transformExpressionsInExprs t (e # es) =
     bindE (transformExpressionsInExpression t e)
       (\<lambda>e'. bindE (transformExpressionsInExprs t es) (\<lambda>es'. Inr (e' # es')))"
| "transformExpressionsInArg t (ArgNum n) = Inr (ArgNum n)"
| "transformExpressionsInArg t (ArgStr s) = Inr (ArgStr s)"
| "transformExpressionsInArg t (ArgStrs ss) = Inr (ArgStrs ss)"
| "transformExpressionsInArg t (ArgExpr e) =
     bindE (transformExpressionsInExpression t e) (\<lambda>e'. Inr (ArgExpr e'))"
| "transformExpressionsInArg t (ArgExprs es) =
     bindE (transformExpressionsInExprs t es) (\<lambda>es'. Inr (ArgExprs es'))"
| "transformExpressionsInArg t (ArgSpan sp) = Inr (ArgSpan sp)"
| "transformExpressionsInArg t (ArgInfinity b) = Inr (ArgInfinity b)"
| "transformExpressionsInArgs t [] = Inr []"
| "transformExpressionsInArgs t (a # as) =
     bindE (transformExpressionsInArg t a)
       (\<lambda>a'. bindE (transformExpressionsInArgs t as) (\<lambda>as'. Inr (a' # as')))"
| "transformExpressionsInStatement t (ExpressionStatement e) =
     bindE (transformExpressionsInExpression t e) (\<lambda>e'. Inr (ExpressionStatement e'))"
| "transformExpressionsInStatement t (DeclareVarStmt n v m) =
     bindE (case v of None \<Rightarrow> Inr None
            | Some e \<Rightarrow> bindE (transformExpressionsInExpression t e) (\<lambda>e'. Inr (Some e')))
       (\<lambda>v'. Inr (DeclareVarStmt n v' m))"
| "transformExpressionsInStatement t (ReturnStatement e) =
     bindE (transformExpressionsInExpression t e) (\<lambda>e'. Inr (ReturnStatement e'))"
| "transformExpressionsInStatements t [] = Inr []"
| "transformExpressionsInStatements t (s # ss) =
     bindE (transformExpressionsInStatement t s)
       (\<lambda>s'. bindE (transformExpressionsInStatements t ss) (\<lambda>ss'. Inr (s' # ss')))"

subsection \<open>Operations\<close>

text \<open>
  The value of a binding: an expression, or an interpolation (\<^verbatim>\<open>ir.Interpolation\<close>,
  with its \<^verbatim>\<open>strings\<close> and its \<^verbatim>\<open>expressions\<close>), which the source tells apart by
  \<^verbatim>\<open>op.expression instanceof ir.Interpolation\<close>.
\<close>

datatype binding =
    Expr expr
  | Interpolation "string list" "expr list"

text \<open>
  Modelled from the spec: the operation types of \<^verbatim>\<open>ir\<close> are not part of the sources at
  hand. One constructor for each \<^verbatim>\<open>ir.OpKind\<close> that \<^verbatim>\<open>reify.ts\<close> names, with the
  fields that it reads, in the order in which it hands them to the builder; \<open>OtherOp n\<close>
  is an operation of the member number \<open>n\<close> of the enumeration that it does not name.
  Create and update operations are one type, as they share the one tag \<^verbatim>\<open>kind\<close>.

  \<^item> \<open>TextOp slot initialValue sourceSpan\<close>
  \<^item> \<open>ElementStartOp slot tag attributes localRefs sourceSpan\<close>, and so \<open>ElementOp\<close>
  \<^item> \<open>ElementEndOp sourceSpan\<close>
  \<^item> \<open>ContainerStartOp slot attributes localRefs sourceSpan\<close>, and so \<open>ContainerOp\<close>
  \<^item> \<open>TemplateOp xref slot tag attributes sourceSpan\<close>
  \<^item> \<open>PipeOp slot name\<close>
  \<^item> \<open>ListenerOp name handlerFnName handlerOps consumesDollarEvent\<close>
  \<^item> \<open>VariableOp xref name initializer\<close>, the name being \<^verbatim>\<open>op.variable.name\<close>
  \<^item> \<open>StatementOp statement\<close>
  \<^item> \<open>AdvanceOp delta sourceSpan\<close>
  \<^item> \<open>PropertyOp name expression sourceSpan\<close>
  \<^item> \<open>StylePropOp name expression unit\<close>
  \<^item> \<open>ClassPropOp name expression\<close>
  \<^item> \<open>StyleMapOp expression\<close>, \<open>ClassMapOp expression\<close>
  \<^item> \<open>InterpolateTextOp strings expressions sourceSpan\<close>, the two fields of
    \<^verbatim>\<open>op.interpolation\<close>
  \<^item> \<open>AttributeOp name expression\<close>, \<open>HostPropertyOp name expression\<close>
\<close>

datatype op =
    TextOp "int option" string "ParseSourceSpan option"
  | ElementStartOp "int option" string "int option" "int option" "ParseSourceSpan option"
  | ElementOp "int option" string "int option" "int option" "ParseSourceSpan option"
  | ElementEndOp "ParseSourceSpan option"
  | ContainerStartOp "int option" "int option" "int option" "ParseSourceSpan option"
  | ContainerOp "int option" "int option" "int option" "ParseSourceSpan option"
  | ContainerEndOp
  | TemplateOp XrefId "int option" string "int option" "ParseSourceSpan option"
  | PipeOp "int option" string
  | ListenerOp string "string option" "op list" bool
  | VariableOp XrefId "string option" expr
  | StatementOp stmt
  | AdvanceOp int "ParseSourceSpan option"
  | PropertyOp string binding "ParseSourceSpan option"
  | StylePropOp string binding "string option"
  | ClassPropOp string expr
  | StyleMapOp binding
  | ClassMapOp binding
  | InterpolateTextOp "string list" "expr list" "ParseSourceSpan option"
  | AttributeOp string binding
  | HostPropertyOp string binding
  | OtherOp nat

text \<open>\<^verbatim>\<open>op.kind\<close>.\<close>

fun kind :: "op \<Rightarrow> OpKind" where
  "kind (TextOp slot v sp) = Text"
| "kind (ElementStartOp slot tag attrs refs sp) = ElementStart"
| "kind (ElementOp slot tag attrs refs sp) = Element"
| "kind (ElementEndOp sp) = ElementEnd"
| "kind (ContainerStartOp slot attrs refs sp) = ContainerStart"
| "kind (ContainerOp slot attrs refs sp) = Container"
| "kind ContainerEndOp = ContainerEnd"
| "kind (TemplateOp x slot tag attrs sp) = Template"
| "kind (PipeOp slot name) = Pipe"
| "kind (ListenerOp name fnName handlerOps consumes) = Listener"
| "kind (VariableOp x name init) = Variable"
| "kind (StatementOp s) = Statement"
| "kind (AdvanceOp delta sp) = Advance"
| "kind (PropertyOp name b sp) = Property"
| "kind (StylePropOp name b u) = StyleProp"
| "kind (ClassPropOp name e) = ClassProp"
| "kind (StyleMapOp b) = StyleMap"
| "kind (ClassMapOp b) = ClassMap"
| "kind (InterpolateTextOp strs es sp) = InterpolateText"
| "kind (AttributeOp name b) = Attribute"
| "kind (HostPropertyOp name b) = HostProperty"
| "kind (OtherOp n) = OtherKind n"

text \<open>
  Modelled from the spec: \<^verbatim>\<open>ir.transformExpressionsInOp\<close> on an operation. Every
  expression that the operation holds is transformed, those of the handler operations of
  a listener included; an interpolation keeps its shape and its strings, and its
  expressions are transformed.
\<close>

fun transformExpressionsInInterpolation ::
  "(expr \<Rightarrow> error + expr) \<Rightarrow> binding \<Rightarrow> error + binding" where
  "transformExpressionsInInterpolation t (Expr e) =
     bindE (transformExpressionsInExpression t e) (\<lambda>e'. Inr (Expr e'))"
| "transformExpressionsInInterpolation t (Interpolation strs es) =
     bindE (transformExpressionsInExprs t es) (\<lambda>es'. Inr (Interpolation strs es'))"

fun transformExpressionsInOp :: "(expr \<Rightarrow> error + expr) \<Rightarrow> op \<Rightarrow> error + op"
  and transformExpressionsInOps :: "(expr \<Rightarrow> error + expr) \<Rightarrow> op list \<Rightarrow> error + op list"
where
  "transformExpressionsInOp t (ListenerOp name fnName handlerOps consumes) =
     bindE (transformExpressionsInOps t handlerOps)
       (\<lambda>hs. Inr (ListenerOp name fnName hs consumes))"
| "transformExpressionsInOp t (VariableOp x name init) =
     bindE (transformExpressionsInExpression t init) (\<lambda>e'. Inr (VariableOp x name e'))"
| "transformExpressionsInOp t (StatementOp s) =
     bindE (transformExpressionsInStatement t s) (\<lambda>s'. Inr (StatementOp s'))"
| "transformExpressionsInOp t (PropertyOp name b sp) =
     bindE (transformExpressionsInInterpolation t b) (\<lambda>b'. Inr (PropertyOp name b' sp))"
| "transformExpressionsInOp t (StylePropOp name b u) =
     bindE (transformExpressionsInInterpolation t b) (\<lambda>b'. Inr (StylePropOp name b' u))"
| "transformExpressionsInOp t (ClassPropOp name e) =
     bindE (transformExpressionsInExpression t e) (\<lambda>e'. Inr (ClassPropOp name e'))"
| "transformExpressionsInOp t (StyleMapOp b) =
     bindE (transformExpressionsInInterpolation t b) (\<lambda>b'. Inr (StyleMapOp b'))"
| "transformExpressionsInOp t (ClassMapOp b) =
     bindE (transformExpressionsInInterpolation t b) (\<lambda>b'. Inr (ClassMapOp b'))"
| "transformExpressionsInOp t (InterpolateTextOp strs es sp) =
     bindE (transformExpressionsInExprs t es) (\<lambda>es'. Inr (InterpolateTextOp strs es' sp))"
| "transformExpressionsInOp t (AttributeOp name b) =
     bindE (transformExpressionsInInterpolation t b) (\<lambda>b'. Inr (AttributeOp name b'))"
| "transformExpressionsInOp t (HostPropertyOp name b) =
     bindE (transformExpressionsInInterpolation t b) (\<lambda>b'. Inr (HostPropertyOp name b'))"
| "transformExpressionsInOp t op = Inr op"
| "transformExpressionsInOps t [] = Inr []"
| "transformExpressionsInOps t (op # ops) =
     bindE (transformExpressionsInOp t op)
       (\<lambda>op'. bindE (transformExpressionsInOps t ops) (\<lambda>ops'. Inr (op' # ops')))"

text \<open>
  Modelled from the spec: the builders of \<^verbatim>\<open>ng\<close> that return an operation. Each
  returns the statement operation (\<^verbatim>\<open>ir.createStatementOp\<close>) that wraps the call of its
  instruction on the arguments it was given, in the order of its parameters.
\<close>

definition call :: "Instruction \<Rightarrow> arg list \<Rightarrow> op" where
  "call i as = StatementOp (ExpressionStatement (InstructionCall i as))"

definition ng_text :: "int option \<Rightarrow> string \<Rightarrow> ParseSourceSpan option \<Rightarrow> op" where
  "ng_text slot initialValue sourceSpan =
     call I_text [ArgNum slot, ArgStr (Some initialValue), ArgSpan sourceSpan]"

definition ng_elementStart ::
  "int option \<Rightarrow> string \<Rightarrow> int option \<Rightarrow> int option \<Rightarrow> ParseSourceSpan option \<Rightarrow> op" where
  "ng_elementStart slot tag constIndex localRefIndex sourceSpan =
     call I_elementStart
       [ArgNum slot, ArgStr (Some tag), ArgNum constIndex, ArgNum localRefIndex,
        ArgSpan sourceSpan]"

definition ng_element ::
  "int option \<Rightarrow> string \<Rightarrow> int option \<Rightarrow> int option \<Rightarrow> ParseSourceSpan option \<Rightarrow> op" where
  "ng_element slot tag constIndex localRefIndex sourceSpan =
     call I_element
       [ArgNum slot, ArgStr (Some tag), ArgNum constIndex, ArgNum localRefIndex,
        ArgSpan sourceSpan]"

definition ng_elementEnd :: "ParseSourceSpan option \<Rightarrow> op" where
  "ng_elementEnd sourceSpan = call I_elementEnd [ArgSpan sourceSpan]"

definition ng_elementContainerStart ::
  "int option \<Rightarrow> int option \<Rightarrow> int option \<Rightarrow> ParseSourceSpan option \<Rightarrow> op" where
  "ng_elementContainerStart slot constIndex localRefIndex sourceSpan =
     call I_elementContainerStart
       [ArgNum slot, ArgNum constIndex, ArgNum localRefIndex, ArgSpan sourceSpan]"

definition ng_elementContainer ::
  "int option \<Rightarrow> int option \<Rightarrow> int option \<Rightarrow> ParseSourceSpan option \<Rightarrow> op" where
  "ng_elementContainer slot constIndex localRefIndex sourceSpan =
     call I_elementContainer
       [ArgNum slot, ArgNum constIndex, ArgNum localRefIndex, ArgSpan sourceSpan]"

definition ng_elementContainerEnd :: "op" where
  "ng_elementContainerEnd = call I_elementContainerEnd []"

definition ng_template ::
  "int option \<Rightarrow> expr \<Rightarrow> int option \<Rightarrow> int option \<Rightarrow> string \<Rightarrow> int option \<Rightarrow>
   ParseSourceSpan option \<Rightarrow> op" where
  "ng_template slot templateFnRef decls vars tag constIndex sourceSpan =
     call I_template
       [ArgNum slot, ArgExpr templateFnRef, ArgNum decls, ArgNum vars, ArgStr (Some tag),
        ArgNum constIndex, ArgSpan sourceSpan]"

definition ng_pipe :: "int option \<Rightarrow> string \<Rightarrow> op" where
  "ng_pipe slot name = call I_pipe [ArgNum slot, ArgStr (Some name)]"

definition ng_listener :: "string \<Rightarrow> expr \<Rightarrow> op" where
  "ng_listener name handlerFn = call I_listener [ArgStr (Some name), ArgExpr handlerFn]"

definition ng_advance :: "int \<Rightarrow> ParseSourceSpan option \<Rightarrow> op" where
  "ng_advance delta sourceSpan = call I_advance [ArgNum (Some delta), ArgSpan sourceSpan]"

definition ng_property :: "string \<Rightarrow> expr \<Rightarrow> ParseSourceSpan option \<Rightarrow> op" where
  "ng_property name expression sourceSpan =
     call I_property [ArgStr (Some name), ArgExpr expression, ArgSpan sourceSpan]"

definition ng_propertyInterpolate ::
  "string \<Rightarrow> string list \<Rightarrow> expr list \<Rightarrow> ParseSourceSpan option \<Rightarrow> op" where
  "ng_propertyInterpolate name strings expressions sourceSpan =
     call I_propertyInterpolate
       [ArgStr (Some name), ArgStrs strings, ArgExprs expressions, ArgSpan sourceSpan]"

definition ng_styleProp :: "string \<Rightarrow> expr \<Rightarrow> string option \<Rightarrow> op" where
  "ng_styleProp name expression unit =
     call I_styleProp [ArgStr (Some name), ArgExpr expression, ArgStr unit]"

definition ng_stylePropInterpolate ::
  "string \<Rightarrow> string list \<Rightarrow> expr list \<Rightarrow> string option \<Rightarrow> op" where
  "ng_stylePropInterpolate name strings expressions unit =
     call I_stylePropInterpolate
       [ArgStr (Some name), ArgStrs strings, ArgExprs expressions, ArgStr unit]"

definition ng_classProp :: "string \<Rightarrow> expr \<Rightarrow> op" where
  "ng_classProp name expression = call I_classProp [ArgStr (Some name), ArgExpr expression]"

definition ng_styleMap :: "expr \<Rightarrow> op" where
  "ng_styleMap expression = call I_styleMap [ArgExpr expression]"

definition ng_styleMapInterpolate :: "string list \<Rightarrow> expr list \<Rightarrow> op" where
  "ng_styleMapInterpolate strings expressions =
     call I_styleMapInterpolate [ArgStrs strings, ArgExprs expressions]"

definition ng_classMap :: "expr \<Rightarrow> op" where
  "ng_classMap expression = call I_classMap [ArgExpr expression]"

definition ng_classMapInterpolate :: "string list \<Rightarrow> expr list \<Rightarrow> op" where
  "ng_classMapInterpolate strings expressions =
     call I_classMapInterpolate [ArgStrs strings, ArgExprs expressions]"

definition ng_textInterpolate ::
  "string list \<Rightarrow> expr list \<Rightarrow> ParseSourceSpan option \<Rightarrow> op" where
  "ng_textInterpolate strings expressions sourceSpan =
     call I_textInterpolate [ArgStrs strings, ArgExprs expressions, ArgSpan sourceSpan]"

definition ng_attribute :: "string \<Rightarrow> expr \<Rightarrow> op" where
  "ng_attribute name expression = call I_attribute [ArgStr (Some name), ArgExpr expression]"

definition ng_attributeInterpolate :: "string \<Rightarrow> string list \<Rightarrow> expr list \<Rightarrow> op" where
  "ng_attributeInterpolate name strings expressions =
     call I_attributeInterpolate [ArgStr (Some name), ArgStrs strings, ArgExprs expressions]"

definition ng_hostProperty :: "string \<Rightarrow> expr \<Rightarrow> op" where
  "ng_hostProperty name expression =
     call I_hostProperty [ArgStr (Some name), ArgExpr expression]"

subsection \<open>Compilation units and jobs\<close>

text \<open>
  Modelled from the spec: \<^verbatim>\<open>compilation.ts\<close> is not part of the sources at hand. A unit
  has its class (what \<^verbatim>\<open>unit instanceof ViewCompilationUnit\<close> tests), its xref, the
  name of its generated function, its counts of declarations and of variables (each
  \<^verbatim>\<open>null\<close> until an earlier phase sets it) and its two operation lists. A job owns its
  units, in the order in which \<^verbatim>\<open>cpl.units\<close> yields them; its map \<^verbatim>\<open>views\<close> sends
  an xref to the view unit of that xref. The reference \<^verbatim>\<open>unit.job\<close> of a unit to its
  job is the job that the functions below take beside the unit.
\<close>

datatype UnitClass = ViewCompilationUnit | HostBindingCompilationUnit

record CompilationUnit =
  unit_class :: UnitClass
  xref :: XrefId
  fnName :: "string option"
  decls :: "int option"
  vars :: "int option"
  create :: "op list"
  update :: "op list"

record CompilationJob =
  units :: "CompilationUnit list"

definition views_get :: "CompilationJob \<Rightarrow> XrefId \<Rightarrow> CompilationUnit option" where
  "views_get job x =
     find (\<lambda>u. unit_class u = ViewCompilationUnit \<and> xref u = x) (units job)"

subsection \<open>The update operations\<close>

text \<open>The \<^verbatim>\<open>switch\<close> of \<^verbatim>\<open>reifyUpdateOperations\<close>, on an operation whose expressions
  are already rewritten: the operation that replaces it (\<^verbatim>\<open>ir.OpList.replace\<close>), or the
  error thrown.\<close>

fun reifyUpdateOp :: "op \<Rightarrow> error + op" where
  "reifyUpdateOp (AdvanceOp delta sp) = Inr (ng_advance delta sp)"
| "reifyUpdateOp (PropertyOp name (Interpolation strs es) sp) =
     Inr (ng_propertyInterpolate name strs es sp)"
| "reifyUpdateOp (PropertyOp name (Expr e) sp) = Inr (ng_property name e sp)"
| "reifyUpdateOp (StylePropOp name (Interpolation strs es) u) =
     Inr (ng_stylePropInterpolate name strs es u)"
| "reifyUpdateOp (StylePropOp name (Expr e) u) = Inr (ng_styleProp name e u)"
| "reifyUpdateOp (ClassPropOp name e) = Inr (ng_classProp name e)"
| "reifyUpdateOp (StyleMapOp (Interpolation strs es)) = Inr (ng_styleMapInterpolate strs es)"
| "reifyUpdateOp (StyleMapOp (Expr e)) = Inr (ng_styleMap e)"
| "reifyUpdateOp (ClassMapOp (Interpolation strs es)) = Inr (ng_classMapInterpolate strs es)"
| "reifyUpdateOp (ClassMapOp (Expr e)) = Inr (ng_classMap e)"
| "reifyUpdateOp (InterpolateTextOp strs es sp) = Inr (ng_textInterpolate strs es sp)"
| "reifyUpdateOp (AttributeOp name (Interpolation strs es)) =
     Inr (ng_attributeInterpolate name strs es)"
| "reifyUpdateOp (AttributeOp name (Expr e)) = Inr (ng_attribute name e)"
| "reifyUpdateOp (HostPropertyOp name (Interpolation strs es)) = Inl NotYetHandled"
| "reifyUpdateOp (HostPropertyOp name (Expr e)) = Inr (ng_hostProperty name e)"
| "reifyUpdateOp (VariableOp x None init) = Inl (UnnamedVariable x)"
| "reifyUpdateOp (VariableOp x (Some name) init) =
     Inr (StatementOp (DeclareVarStmt name (Some init) Final))"
| "reifyUpdateOp (StatementOp s) = Inr (StatementOp s)"
| "reifyUpdateOp op = Inl (UnsupportedUpdateOp (kind op))"

text \<open>\<^verbatim>\<open>reifyUpdateOperations\<close>: for each operation of the list in its order, the
  expressions are rewritten, then the operation is replaced in its place.\<close>

fun reifyUpdateOperations ::
  "CompilationJob \<Rightarrow> CompilationUnit \<Rightarrow> op list \<Rightarrow> error + op list" where
  "reifyUpdateOperations job u [] = Inr []"
| "reifyUpdateOperations job u (op # ops) =
     bindE (transformExpressionsInOp reifyIrExpression op)
       (\<lambda>op'. bindE (reifyUpdateOp op')
         (\<lambda>r. bindE (reifyUpdateOperations job u ops) (\<lambda>rs. Inr (r # rs))))"

subsection \<open>Listener handlers\<close>

text \<open>The second loop of \<^verbatim>\<open>reifyListenerHandler\<close>: the statements of the reified
  handler operations, in their order.\<close>

fun handlerStmts :: "op list \<Rightarrow> error + stmt list" where
  "handlerStmts [] = Inr []"
| "handlerStmts (StatementOp s # ops) = bindE (handlerStmts ops) (\<lambda>ss. Inr (s # ss))"
| "handlerStmts (op # ops) = Inl (ExpectedReifiedStatements (kind op))"

definition reifyListenerHandler ::
  "CompilationJob \<Rightarrow> CompilationUnit \<Rightarrow> string option \<Rightarrow> op list \<Rightarrow> bool \<Rightarrow> error + expr"
where
  "reifyListenerHandler job u name handlerOps consumesDollarEvent =
     bindE (reifyUpdateOperations job u handlerOps)
       (\<lambda>ops'. bindE (handlerStmts ops')
         (\<lambda>handlerStmts.
            Inr (FunctionExpr (if consumesDollarEvent then [FnParam ''$event''] else [])
                   handlerStmts name)))"

subsection \<open>The create operations\<close>

text \<open>The \<^verbatim>\<open>switch\<close> of \<^verbatim>\<open>reifyCreateOperations\<close>, on an operation whose expressions
  are already rewritten.\<close>

fun reifyCreateOp :: "CompilationJob \<Rightarrow> CompilationUnit \<Rightarrow> op \<Rightarrow> error + op" where
  "reifyCreateOp job u (TextOp slot initialValue sp) = Inr (ng_text slot initialValue sp)"
| "reifyCreateOp job u (ElementStartOp slot tag attrs refs sp) =
     Inr (ng_elementStart slot tag attrs refs sp)"
| "reifyCreateOp job u (ElementOp slot tag attrs refs sp) =
     Inr (ng_element slot tag attrs refs sp)"
| "reifyCreateOp job u (ElementEndOp sp) = Inr (ng_elementEnd sp)"
| "reifyCreateOp job u (ContainerStartOp slot attrs refs sp) =
     Inr (ng_elementContainerStart slot attrs refs sp)"
| "reifyCreateOp job u (ContainerOp slot attrs refs sp) =
     Inr (ng_elementContainer slot attrs refs sp)"
| "reifyCreateOp job u ContainerEndOp = Inr ng_elementContainerEnd"
| "reifyCreateOp job u (TemplateOp x slot tag attrs sp) =
     (if unit_class u \<noteq> ViewCompilationUnit then Inl MustBeCompilingComponent
      else (case views_get job x of
              None \<Rightarrow> Inl TypeError
            | Some childView \<Rightarrow>
                Inr (ng_template slot (ReadVarExpr (fnName childView)) (decls childView)
                       (vars childView) tag attrs sp)))"
| "reifyCreateOp job u (PipeOp slot name) = Inr (ng_pipe slot name)"
| "reifyCreateOp job u (ListenerOp name handlerFnName handlerOps consumesDollarEvent) =
     bindE (reifyListenerHandler job u handlerFnName handlerOps consumesDollarEvent)
       (\<lambda>listenerFn. Inr (ng_listener name listenerFn))"
| "reifyCreateOp job u (VariableOp x None init) = Inl (UnnamedVariable x)"
| "reifyCreateOp job u (VariableOp x (Some name) init) =
     Inr (StatementOp (DeclareVarStmt name (Some init) Final))"
| "reifyCreateOp job u (StatementOp s) = Inr (StatementOp s)"
| "reifyCreateOp job u op = Inl (UnsupportedCreateOp (kind op))"

fun reifyCreateOperations ::
  "CompilationJob \<Rightarrow> CompilationUnit \<Rightarrow> op list \<Rightarrow> error + op list" where
  "reifyCreateOperations job u [] = Inr []"
| "reifyCreateOperations job u (op # ops) =
     bindE (transformExpressionsInOp reifyIrExpression op)
       (\<lambda>op'. bindE (reifyCreateOp job u op')
         (\<lambda>r. bindE (reifyCreateOperations job u ops) (\<lambda>rs. Inr (r # rs))))"

subsection \<open>The pass\<close>

text \<open>
  \<^verbatim>\<open>phaseReify\<close>. The loop over the units of the job: \<open>reifyUnits seen rest\<close> has
  the units already processed in \<open>seen\<close> and processes those of \<open>rest\<close>; each unit
  is processed in the job as the units before it have left it, and its update list is
  processed after its create list is replaced.
\<close>

fun reifyUnits ::
  "CompilationUnit list \<Rightarrow> CompilationUnit list \<Rightarrow> error + CompilationUnit list" where
  "reifyUnits seen [] = Inr seen"
| "reifyUnits seen (u # rest) =
     bindE (reifyCreateOperations \<lparr>units = seen @ u # rest\<rparr> u (create u))
       (\<lambda>c. bindE (reifyUpdateOperations \<lparr>units = seen @ u\<lparr>create := c\<rparr> # rest\<rparr>
                     (u\<lparr>create := c\<rparr>) (update u))
         (\<lambda>up. reifyUnits (seen @ [u\<lparr>create := c, update := up\<rparr>]) rest))"

definition phaseReify :: "CompilationJob \<Rightarrow> error + CompilationJob" where
  "phaseReify cpl = bindE (reifyUnits [] (units cpl)) (\<lambda>us. Inr (cpl\<lparr>units := us\<rparr>))"

subsection \<open>Predicates of the properties\<close>

text \<open>An expression, an argument of an instruction call, a statement in which no IR
  expression stands, at any depth.\<close>

fun noIrExpr :: "expr \<Rightarrow> bool"
  and noIrArg :: "arg \<Rightarrow> bool"
  and noIrStmt :: "stmt \<Rightarrow> bool"
where
  "noIrExpr (ReadVarExpr n) = True"
| "noIrExpr (WriteVarExpr n e) = noIrExpr e"
| "noIrExpr (LiteralExpr l) = True"
| "noIrExpr (FunctionExpr ps ss n) = list_all noIrStmt ss"
| "noIrExpr (OutputExpr c es) = list_all noIrExpr es"
| "noIrExpr (InstructionCall i as) = list_all noIrArg as"
| "noIrExpr _ = False"
| "noIrArg (ArgExpr e) = noIrExpr e"
| "noIrArg (ArgExprs es) = list_all noIrExpr es"
| "noIrArg _ = True"
| "noIrStmt (ExpressionStatement e) = noIrExpr e"
| "noIrStmt (DeclareVarStmt n v m) = (case v of None \<Rightarrow> True | Some e \<Rightarrow> noIrExpr e)"
| "noIrStmt (ReturnStatement e) = noIrExpr e"

text \<open>A reified operation: a statement operation whose statement holds no IR
  expression.\<close>

fun reified :: "op \<Rightarrow> bool" where
  "reified (StatementOp s) = noIrStmt s"
| "reified _ = False"

text \<open>A binding, an operation in which no IR expression stands, the handler operations of
  a listener included.\<close>

fun noIrBinding :: "binding \<Rightarrow> bool" where
  "noIrBinding (Expr e) = noIrExpr e"
| "noIrBinding (Interpolation strs es) = list_all noIrExpr es"

fun noIrOp :: "op \<Rightarrow> bool" where
  "noIrOp (ListenerOp name handlerFnName handlerOps consumes) = list_all noIrOp handlerOps"
| "noIrOp (VariableOp x name init) = noIrExpr init"
| "noIrOp (StatementOp s) = noIrStmt s"
| "noIrOp (PropertyOp name b sp) = noIrBinding b"
| "noIrOp (StylePropOp name b u) = noIrBinding b"
| "noIrOp (ClassPropOp name e) = noIrExpr e"
| "noIrOp (StyleMapOp b) = noIrBinding b"
| "noIrOp (ClassMapOp b) = noIrBinding b"
| "noIrOp (InterpolateTextOp strs es sp) = list_all noIrExpr es"
| "noIrOp (AttributeOp name b) = noIrBinding b"
| "noIrOp (HostPropertyOp name b) = noIrBinding b"
| "noIrOp _ = True"

text \<open>Two units that differ in their operation lists at most.\<close>

fun sameMeta :: "CompilationUnit \<Rightarrow> CompilationUnit \<Rightarrow> bool" where
  "sameMeta u u' \<longleftrightarrow>
     unit_class u = unit_class u' \<and> xref u = xref u' \<and> fnName u = fnName u' \<and>
     decls u = decls u' \<and> vars u = vars u'"

text \<open>\<open>unitReified job u u'\<close>: the unit \<open>u'\<close> is the unit \<open>u\<close> with its two lists
  replaced by what \<^verbatim>\<open>reifyCreateOperations\<close> and \<^verbatim>\<open>reifyUpdateOperations\<close> return
  on them in the job \<open>job\<close>.\<close>

definition unitReified :: "CompilationJob \<Rightarrow> CompilationUnit \<Rightarrow> CompilationUnit \<Rightarrow> bool" where
  "unitReified job u u' \<longleftrightarrow>
     reifyCreateOperations job u (create u) = Inr (create u') \<and>
     reifyUpdateOperations job u (update u) = Inr (update u') \<and>
     sameMeta u u'"

text \<open>The kinds that the \<^verbatim>\<open>switch\<close> of \<^verbatim>\<open>reifyCreateOperations\<close> has a
  \<^verbatim>\<open>case\<close> for, and those of \<^verbatim>\<open>reifyUpdateOperations\<close>.\<close>

fun createSupported :: "OpKind \<Rightarrow> bool" where
  "createSupported Text = True"
| "createSupported ElementStart = True"
| "createSupported Element = True"
| "createSupported ElementEnd = True"
| "createSupported ContainerStart = True"
| "createSupported Container = True"
| "createSupported ContainerEnd = True"
| "createSupported Template = True"
| "createSupported Pipe = True"
| "createSupported Listener = True"
| "createSupported Variable = True"
| "createSupported Statement = True"
| "createSupported _ = False"

fun updateSupported :: "OpKind \<Rightarrow> bool" where
  "updateSupported Advance = True"
| "updateSupported Property = True"
| "updateSupported StyleProp = True"
| "updateSupported ClassProp = True"
| "updateSupported StyleMap = True"
| "updateSupported ClassMap = True"
| "updateSupported InterpolateText = True"
| "updateSupported Attribute = True"
| "updateSupported HostProperty = True"
| "updateSupported Variable = True"
| "updateSupported Statement = True"
| "updateSupported _ = False"

text \<open>The IR expressions on which \<^verbatim>\<open>reifyIrExpression\<close> has no replacement: a
  lexical read, a restore-view whose view is a number, a pure-function parameter, and
  every kind that its \<^verbatim>\<open>switch\<close> has no \<^verbatim>\<open>case\<close> for.\<close>

fun unsupportedIr :: "expr \<Rightarrow> bool" where
  "unsupportedIr (LexicalReadExpr name) = True"
| "unsupportedIr (RestoreViewExpr_number v) = True"
| "unsupportedIr (PureFunctionParameterExpr i) = True"
| "unsupportedIr (OtherIrExpr k es) = True"
| "unsupportedIr _ = False"

text \<open>\<open>existsExpr P e\<close>: some node of the expression \<open>e\<close> satisfies \<open>P\<close>; so for an
  argument, a statement, a binding and an operation.\<close>

fun existsExpr :: "(expr \<Rightarrow> bool) \<Rightarrow> expr \<Rightarrow> bool"
  and existsArg :: "(expr \<Rightarrow> bool) \<Rightarrow> arg \<Rightarrow> bool"
  and existsStmt :: "(expr \<Rightarrow> bool) \<Rightarrow> stmt \<Rightarrow> bool"
where
  "existsExpr P (WriteVarExpr n e) = (P (WriteVarExpr n e) \<or> existsExpr P e)"
| "existsExpr P (FunctionExpr ps ss n) =
     (P (FunctionExpr ps ss n) \<or> list_ex (existsStmt P) ss)"
| "existsExpr P (OutputExpr c es) = (P (OutputExpr c es) \<or> list_ex (existsExpr P) es)"
| "existsExpr P (InstructionCall i as) =
     (P (InstructionCall i as) \<or> list_ex (existsArg P) as)"
| "existsExpr P (RestoreViewExpr_expr v) = (P (RestoreViewExpr_expr v) \<or> existsExpr P v)"
| "existsExpr P (ResetViewExpr e) = (P (ResetViewExpr e) \<or> existsExpr P e)"
| "existsExpr P (AssignTemporaryExpr e x name) =
     (P (AssignTemporaryExpr e x name) \<or> existsExpr P e)"
| "existsExpr P (PureFunctionExpr varOffset fn args) =
     (P (PureFunctionExpr varOffset fn args) \<or>
      (case fn of None \<Rightarrow> False | Some f \<Rightarrow> existsExpr P f) \<or>
      list_ex (existsExpr P) args)"
| "existsExpr P (PipeBindingExpr slot varOffset args) =
     (P (PipeBindingExpr slot varOffset args) \<or> list_ex (existsExpr P) args)"
| "existsExpr P (PipeBindingVariadicExpr slot varOffset args) =
     (P (PipeBindingVariadicExpr slot varOffset args) \<or> list_ex (existsExpr P) args)"
| "existsExpr P (OtherIrExpr k es) = (P (OtherIrExpr k es) \<or> list_ex (existsExpr P) es)"
| "existsExpr P e = P e"
| "existsArg P (ArgExpr e) = existsExpr P e"
| "existsArg P (ArgExprs es) = list_ex (existsExpr P) es"
| "existsArg P _ = False"
| "existsStmt P (ExpressionStatement e) = existsExpr P e"
| "existsStmt P (DeclareVarStmt n v m) =
     (case v of None \<Rightarrow> False | Some e \<Rightarrow> existsExpr P e)"
| "existsStmt P (ReturnStatement e) = existsExpr P e"

fun existsBinding :: "(expr \<Rightarrow> bool) \<Rightarrow> binding \<Rightarrow> bool" where
  "existsBinding P (Expr e) = existsExpr P e"
| "existsBinding P (Interpolation strs es) = list_ex (existsExpr P) es"

fun existsOp :: "(expr \<Rightarrow> bool) \<Rightarrow> op \<Rightarrow> bool" where
  "existsOp P (ListenerOp name handlerFnName handlerOps consumes) =
     list_ex (existsOp P) handlerOps"
| "existsOp P (VariableOp x name init) = existsExpr P init"
| "existsOp P (StatementOp s) = existsStmt P s"
| "existsOp P (PropertyOp name b sp) = existsBinding P b"
| "existsOp P (StylePropOp name b u) = existsBinding P b"
| "existsOp P (ClassPropOp name e) = existsExpr P e"
| "existsOp P (StyleMapOp b) = existsBinding P b"
| "existsOp P (ClassMapOp b) = existsBinding P b"
| "existsOp P (InterpolateTextOp strs es sp) = list_ex (existsExpr P) es"
| "existsOp P (AttributeOp name b) = existsBinding P b"
| "existsOp P (HostPropertyOp name b) = existsBinding P b"
| "existsOp P _ = False"

subsection \<open>An example job\<close>

text \<open>A root view with an element, a nested template, a listener and an interpolated
  property; the view of the nested template; and what the pass makes of them. A unit of
  host bindings.\<close>

definition exChild :: CompilationUnit where
  "exChild = \<lparr>unit_class = ViewCompilationUnit, xref = 1,
     fnName = Some ''App_ng_template_1_Template'', decls = Some 2, vars = Some 1,
     create = [TextOp (Some 0) ''hi'' None],
     update = [AdvanceOp 1 None,
               InterpolateTextOp ['''', ''!''] [ReadVariableExpr 7 (Some ''name'')] None]\<rparr>"

definition exRoot :: CompilationUnit where
  "exRoot = \<lparr>unit_class = ViewCompilationUnit, xref = 0,
     fnName = Some ''App_Template'', decls = Some 4, vars = Some 3,
     create = [ElementStartOp (Some 0) ''div'' None None None,
               TemplateOp 1 (Some 1) ''ng-template'' None None,
               ListenerOp ''click'' (Some ''App_div_click_0_listener'')
                 [StatementOp (ReturnStatement (ResetViewExpr (ReadVariableExpr 3 (Some ''ctx''))))]
                 True,
               ElementEndOp None],
     update = [PropertyOp ''title''
                 (Interpolation [''Hello, '', ''!''] [ReadVariableExpr 5 (Some ''name'')]) None]\<rparr>"

definition exJob :: CompilationJob where
  "exJob = \<lparr>units = [exRoot, exChild]\<rparr>"

definition exRootReified :: CompilationUnit where
  "exRootReified = \<lparr>unit_class = ViewCompilationUnit, xref = 0,
     fnName = Some ''App_Template'', decls = Some 4, vars = Some 3,
     create =
       [call I_elementStart
          [ArgNum (Some 0), ArgStr (Some ''div''), ArgNum None, ArgNum None, ArgSpan None],
        call I_template
          [ArgNum (Some 1), ArgExpr (ReadVarExpr (Some ''App_ng_template_1_Template'')),
           ArgNum (Some 2), ArgNum (Some 1), ArgStr (Some ''ng-template''), ArgNum None,
           ArgSpan None],
        call I_listener
          [ArgStr (Some ''click''),
           ArgExpr (FunctionExpr [FnParam ''$event'']
             [ReturnStatement (InstructionCall I_resetView [ArgExpr (ReadVarExpr (Some ''ctx''))])]
             (Some ''App_div_click_0_listener''))],
        call I_elementEnd [ArgSpan None]],
     update =
       [call I_propertyInterpolate
          [ArgStr (Some ''title''), ArgStrs [''Hello, '', ''!''],
           ArgExprs [ReadVarExpr (Some ''name'')], ArgSpan None]]\<rparr>"

definition exChildReified :: CompilationUnit where
  "exChildReified = \<lparr>unit_class = ViewCompilationUnit, xref = 1,
     fnName = Some ''App_ng_template_1_Template'', decls = Some 2, vars = Some 1,
     create = [call I_text [ArgNum (Some 0), ArgStr (Some ''hi''), ArgSpan None]],
     update =
       [call I_advance [ArgNum (Some 1), ArgSpan None],
        call I_textInterpolate
          [ArgStrs ['''', ''!''], ArgExprs [ReadVarExpr (Some ''name'')], ArgSpan None]]\<rparr>"

definition exJobReified :: CompilationJob where
  "exJobReified = \<lparr>units = [exRootReified, exChildReified]\<rparr>"

definition exHost :: CompilationUnit where
  "exHost = \<lparr>unit_class = HostBindingCompilationUnit, xref = 0,
     fnName = None, decls = None, vars = None,
     create = [],
     update = [HostPropertyOp ''id'' (Expr (ReadVariableExpr 2 (Some ''id'')))]\<rparr>"

text \<open>The handler operations of a listener, and their statements once reified.\<close>

definition exHandlerOps :: "op list" where
  "exHandlerOps =
     [VariableOp 4 (Some ''ctx_r1'') (RestoreViewExpr_expr (ReadVariableExpr 9 (Some ''_r0''))),
      StatementOp (ReturnStatement (ResetViewExpr (ReadVariableExpr 3 (Some ''ctx''))))]"

definition exHandlerStmts :: "stmt list" where
  "exHandlerStmts =
     [DeclareVarStmt ''ctx_r1''
        (Some (InstructionCall I_restoreView [ArgExpr (ReadVarExpr (Some ''_r0''))])) Final,
      ReturnStatement (InstructionCall I_resetView [ArgExpr (ReadVarExpr (Some ''ctx''))])]"

text \<open>A unit whose create list holds an update operation.\<close>

definition exBadUnit :: CompilationUnit where
  "exBadUnit = \<lparr>unit_class = ViewCompilationUnit, xref = 0,
     fnName = Some ''Bad_Template'', decls = Some 1, vars = Some 0,
     create = [TextOp (Some 0) ''hi'' None, AdvanceOp 1 None],
     update = []\<rparr>"

text \<open>The arguments of the instruction call that a statement operation wraps, and
  whether an argument is a string.\<close>

fun callArgs :: "op \<Rightarrow> arg list" where
  "callArgs (StatementOp (ExpressionStatement (InstructionCall i as))) = as"
| "callArgs _ = []"

fun isArgStr :: "arg \<Rightarrow> bool" where
  "isArgStr (ArgStr s) = True"
| "isArgStr _ = False"

section \<open>Properties\<close>

subsection \<open>Errors and lists\<close>

lemma bindE_Inl [simp]: "bindE (Inl e) f = Inl e"
  by (simp add: bindE_def)

lemma bindE_Inr [simp]: "bindE (Inr x) f = f x"
  by (simp add: bindE_def)

lemma bindE_eq_Inr: "bindE m f = Inr y \<longleftrightarrow> (\<exists>x. m = Inr x \<and> f x = Inr y)"
  by (cases m) simp_all

lemma bindE_eq_Inl: "bindE m f = Inl e \<longleftrightarrow> (m = Inl e \<or> (\<exists>x. m = Inr x \<and> f x = Inl e))"
  by (cases m) simp_all

lemma transformExprs_iff:
  "transformExpressionsInExprs t es = Inr es' \<longleftrightarrow>
   list_all2 (\<lambda>e e'. transformExpressionsInExpression t e = Inr e') es es'"
  by (induction es arbitrary: es') (auto simp: bindE_eq_Inr list_all2_Cons1)

lemma transformArgs_iff:
  "transformExpressionsInArgs t as = Inr as' \<longleftrightarrow>
   list_all2 (\<lambda>a a'. transformExpressionsInArg t a = Inr a') as as'"
  by (induction as arbitrary: as') (auto simp: bindE_eq_Inr list_all2_Cons1)

lemma transformStatements_iff:
  "transformExpressionsInStatements t ss = Inr ss' \<longleftrightarrow>
   list_all2 (\<lambda>s s'. transformExpressionsInStatement t s = Inr s') ss ss'"
  by (induction ss arbitrary: ss') (auto simp: bindE_eq_Inr list_all2_Cons1)

lemma transformOps_iff:
  "transformExpressionsInOps t ops = Inr ops' \<longleftrightarrow>
   list_all2 (\<lambda>op op'. transformExpressionsInOp t op = Inr op') ops ops'"
  by (induction ops arbitrary: ops') (auto simp: bindE_eq_Inr list_all2_Cons1)

lemma transformExprs_all:
  "\<forall>e\<in>set es. \<forall>e'. transformExpressionsInExpression t e = Inr e' \<longrightarrow> P e' \<Longrightarrow>
   transformExpressionsInExprs t es = Inr es' \<Longrightarrow> list_all P es'"
  by (induction es arbitrary: es') (auto simp: bindE_eq_Inr)

lemma transformArgs_all:
  "\<forall>a\<in>set as. \<forall>a'. transformExpressionsInArg t a = Inr a' \<longrightarrow> P a' \<Longrightarrow>
   transformExpressionsInArgs t as = Inr as' \<Longrightarrow> list_all P as'"
  by (induction as arbitrary: as') (auto simp: bindE_eq_Inr)

lemma transformStatements_all:
  "\<forall>s\<in>set ss. \<forall>s'. transformExpressionsInStatement t s = Inr s' \<longrightarrow> P s' \<Longrightarrow>
   transformExpressionsInStatements t ss = Inr ss' \<Longrightarrow> list_all P ss'"
  by (induction ss arbitrary: ss') (auto simp: bindE_eq_Inr)

lemma noIrArg_numberArg [simp]: "noIrArg (numberArg x)"
  by (cases x) simp_all

lemma roundToDouble_exact: "\<bar>x\<bar> \<le> 2 ^ 53 \<Longrightarrow> roundToDouble x = NumInt x"
  by (simp add: roundToDouble_def Let_def nat_le_iff)

text \<open>Beyond \<open>2 ^ 53\<close> the sum is rounded: a reference with slot \<open>2 ^ 53\<close> and offset 0
  gets the argument \<open>2 ^ 53\<close>.\<close>

lemma roundToDouble_tie: "roundToDouble (2 ^ 53 + 1) = NumInt (2 ^ 53)"
  unfolding roundToDouble_def by (simp add: bitLength.simps)

lemma reifyIrExpression_Reference_rounds:
  "reifyIrExpression (ReferenceExpr (Some (2 ^ 53)) 0) =
     Inr (InstructionCall I_reference [ArgNum (Some (2 ^ 53))])"
proof -
  have "jsAdd (NumInt (2 ^ 53)) 1 = NumInt (2 ^ 53)"
    using roundToDouble_tie by simp
  moreover have "jsAdd (NumInt (2 ^ 53)) 0 = NumInt (2 ^ 53)"
    by (simp add: roundToDouble_exact)
  ultimately show ?thesis
    by (simp add: ng_reference_def)
qed

lemmas ng_expr_defs = ng_nextContext_def ng_reference_def ng_restoreView_def ng_resetView_def
  ng_getCurrentView_def ng_pureFunction_def ng_pipeBind_def ng_pipeBindV_def

lemma reify_noIr:
  fixes e :: expr and a :: arg and s :: stmt
  shows "\<And>e'. transformExpressionsInExpression reifyIrExpression e = Inr e' \<Longrightarrow> noIrExpr e'"
    and "\<And>a'. transformExpressionsInArg reifyIrExpression a = Inr a' \<Longrightarrow> noIrArg a'"
    and "\<And>s'. transformExpressionsInStatement reifyIrExpression s = Inr s' \<Longrightarrow> noIrStmt s'"
proof (induction e and a and s)
  case (FunctionExpr ps ss n)
  have "\<forall>s\<in>set ss. \<forall>s'. transformExpressionsInStatement reifyIrExpression s = Inr s'
          \<longrightarrow> noIrStmt s'"
    using FunctionExpr.IH by blast
  with FunctionExpr.prems show ?case
    by (auto simp: bindE_eq_Inr dest: transformStatements_all)
next
  case (OutputExpr c es)
  have "\<forall>e\<in>set es. \<forall>e'. transformExpressionsInExpression reifyIrExpression e = Inr e'
          \<longrightarrow> noIrExpr e'"
    using OutputExpr.IH by blast
  with OutputExpr.prems show ?case
    by (auto simp: bindE_eq_Inr dest: transformExprs_all)
next
  case (InstructionCall i as)
  have "\<forall>a\<in>set as. \<forall>a'. transformExpressionsInArg reifyIrExpression a = Inr a'
          \<longrightarrow> noIrArg a'"
    using InstructionCall.IH by blast
  with InstructionCall.prems show ?case
    by (auto simp: bindE_eq_Inr dest: transformArgs_all)
next
  case (PureFunctionExpr off fn args)
  have "\<forall>e\<in>set args. \<forall>e'. transformExpressionsInExpression reifyIrExpression e = Inr e'
          \<longrightarrow> noIrExpr e'"
    using PureFunctionExpr.IH(2) by blast
  then have "\<And>es'. transformExpressionsInExprs reifyIrExpression args = Inr es'
          \<Longrightarrow> list_all noIrExpr es'"
    by (rule transformExprs_all)
  with PureFunctionExpr.prems PureFunctionExpr.IH(1) show ?case
    by (auto simp: bindE_eq_Inr ng_expr_defs split: option.splits)
next
  case (PipeBindingExpr slot off args)
  have "\<forall>e\<in>set args. \<forall>e'. transformExpressionsInExpression reifyIrExpression e = Inr e'
          \<longrightarrow> noIrExpr e'"
    using PipeBindingExpr.IH by blast
  with PipeBindingExpr.prems show ?case
    by (auto simp: bindE_eq_Inr ng_expr_defs dest: transformExprs_all)
next
  case (PipeBindingVariadicExpr slot off args)
  have "\<forall>e\<in>set args. \<forall>e'. transformExpressionsInExpression reifyIrExpression e = Inr e'
          \<longrightarrow> noIrExpr e'"
    using PipeBindingVariadicExpr.IH by blast
  with PipeBindingVariadicExpr.prems show ?case
    by (auto simp: bindE_eq_Inr ng_expr_defs dest: transformExprs_all)
next
  case (OtherIrExpr k es)
  then show ?case
    by (auto simp: bindE_eq_Inr)
next
  case (ArgExprs es)
  have "\<forall>e\<in>set es. \<forall>e'. transformExpressionsInExpression reifyIrExpression e = Inr e'
          \<longrightarrow> noIrExpr e'"
    using ArgExprs.IH by blast
  with ArgExprs.prems show ?case
    by (auto simp: bindE_eq_Inr dest: transformExprs_all)
next
  case (DeclareVarStmt n v m)
  then show ?case
    by (auto simp: bindE_eq_Inr split: option.splits)
qed (auto simp: bindE_eq_Inr ng_expr_defs split: option.splits)

lemma transformExprs_noIr:
  "transformExpressionsInExprs reifyIrExpression es = Inr es' \<Longrightarrow> list_all noIrExpr es'"
  by (rule transformExprs_all [rotated]) (auto dest: reify_noIr)

text \<open>The rewriter leaves an expression without IR expressions as it is.\<close>

lemma reifyIrExpression_final: "\<not> isIrExpression e \<Longrightarrow> reifyIrExpression e = Inr e"
  by (cases e) simp_all

lemma transformExprs_id:
  "\<forall>e\<in>set es. transformExpressionsInExpression t e = Inr e \<Longrightarrow>
   transformExpressionsInExprs t es = Inr es"
  by (induction es) auto

lemma transformArgs_id:
  "\<forall>a\<in>set as. transformExpressionsInArg t a = Inr a \<Longrightarrow>
   transformExpressionsInArgs t as = Inr as"
  by (induction as) auto

lemma transformStatements_id:
  "\<forall>s\<in>set ss. transformExpressionsInStatement t s = Inr s \<Longrightarrow>
   transformExpressionsInStatements t ss = Inr ss"
  by (induction ss) auto

lemma noIr_fixed:
  fixes e :: expr and a :: arg and s :: stmt
  shows "noIrExpr e \<Longrightarrow> transformExpressionsInExpression reifyIrExpression e = Inr e"
    and "noIrArg a \<Longrightarrow> transformExpressionsInArg reifyIrExpression a = Inr a"
    and "noIrStmt s \<Longrightarrow> transformExpressionsInStatement reifyIrExpression s = Inr s"
proof (induction e and a and s)
  case (FunctionExpr ps ss n)
  then show ?case by (simp add: transformStatements_id list_all_iff)
next
  case (OutputExpr c es)
  then show ?case by (simp add: transformExprs_id list_all_iff)
next
  case (InstructionCall i as)
  then show ?case by (simp add: transformArgs_id list_all_iff)
next
  case (ArgExprs es)
  then show ?case by (simp add: transformExprs_id list_all_iff)
next
  case (DeclareVarStmt n v m)
  then show ?case by (cases v) auto
qed auto

subsection \<open>Operations\<close>

lemma reifyUpdateOperations_iff:
  "reifyUpdateOperations job u ops = Inr rs \<longleftrightarrow>
   list_all2 (\<lambda>op r. reifyUpdateOperations job u [op] = Inr [r]) ops rs"
  by (induction ops arbitrary: rs) (auto simp: bindE_eq_Inr list_all2_Cons1)

lemma reifyCreateOperations_iff:
  "reifyCreateOperations job u ops = Inr rs \<longleftrightarrow>
   list_all2 (\<lambda>op r. reifyCreateOperations job u [op] = Inr [r]) ops rs"
  by (induction ops arbitrary: rs) (auto simp: bindE_eq_Inr list_all2_Cons1)

lemma transformInterpolation_noIr:
  "transformExpressionsInInterpolation reifyIrExpression b = Inr b' \<Longrightarrow> noIrBinding b'"
  by (cases b) (auto simp: bindE_eq_Inr dest: reify_noIr transformExprs_noIr)

lemma transformOps_all:
  "\<forall>op\<in>set ops. \<forall>op'. transformExpressionsInOp t op = Inr op' \<longrightarrow> P op' \<Longrightarrow>
   transformExpressionsInOps t ops = Inr ops' \<Longrightarrow> list_all P ops'"
  by (induction ops arbitrary: ops') (auto simp: bindE_eq_Inr)

lemma transformOp_noIr:
  "transformExpressionsInOp reifyIrExpression op = Inr op' \<Longrightarrow> noIrOp op'"
proof (induction op arbitrary: op')
  case (ListenerOp name handlerFnName handlerOps consumes)
  have "\<forall>op\<in>set handlerOps. \<forall>op'. transformExpressionsInOp reifyIrExpression op = Inr op'
          \<longrightarrow> noIrOp op'"
    using ListenerOp.IH by blast
  then have "\<And>hs. transformExpressionsInOps reifyIrExpression handlerOps = Inr hs
          \<Longrightarrow> list_all noIrOp hs"
    by (rule transformOps_all)
  with ListenerOp.prems show ?case
    by (auto simp: bindE_eq_Inr)
qed (auto simp: bindE_eq_Inr dest: reify_noIr transformExprs_noIr transformInterpolation_noIr)

lemma transformInterpolation_fixed:
  "noIrBinding b \<Longrightarrow> transformExpressionsInInterpolation reifyIrExpression b = Inr b"
  by (cases b) (auto simp: noIr_fixed transformExprs_id list_all_iff)

lemma transformOps_id:
  "\<forall>op\<in>set ops. transformExpressionsInOp t op = Inr op \<Longrightarrow>
   transformExpressionsInOps t ops = Inr ops"
  by (induction ops) auto

lemma noIrOp_fixed:
  "noIrOp op \<Longrightarrow> transformExpressionsInOp reifyIrExpression op = Inr op"
proof (induction op)
  case (ListenerOp name handlerFnName handlerOps consumes)
  then show ?case by (simp add: transformOps_id list_all_iff)
qed (auto simp: noIr_fixed transformExprs_id list_all_iff transformInterpolation_fixed)

lemmas ng_op_defs = call_def ng_text_def ng_elementStart_def ng_element_def ng_elementEnd_def
  ng_elementContainerStart_def ng_elementContainer_def ng_elementContainerEnd_def
  ng_template_def ng_pipe_def ng_listener_def ng_advance_def ng_property_def
  ng_propertyInterpolate_def ng_styleProp_def ng_stylePropInterpolate_def ng_classProp_def
  ng_styleMap_def ng_styleMapInterpolate_def ng_classMap_def ng_classMapInterpolate_def
  ng_textInterpolate_def ng_attribute_def ng_attributeInterpolate_def ng_hostProperty_def

lemma reifyUpdateOp_reified:
  "noIrOp op \<Longrightarrow> reifyUpdateOp op = Inr r \<Longrightarrow> reified r"
  by (induction op rule: reifyUpdateOp.induct) (auto simp: ng_op_defs)

lemma reifyUpdateOperations_reified:
  "reifyUpdateOperations job u ops = Inr rs \<Longrightarrow> list_all reified rs"
  by (induction ops arbitrary: rs)
    (auto simp: bindE_eq_Inr intro: reifyUpdateOp_reified [OF transformOp_noIr])

lemma handlerStmts_iff: "handlerStmts ops = Inr ss \<longleftrightarrow> ops = map StatementOp ss"
  by (induction ops arbitrary: ss rule: handlerStmts.induct) (auto simp: bindE_eq_Inr)

lemma reifyListenerHandler_iff:
  "reifyListenerHandler job u name handlerOps c = Inr f \<longleftrightarrow>
   (\<exists>ss. reifyUpdateOperations job u handlerOps = Inr (map StatementOp ss) \<and>
      f = FunctionExpr (if c then [FnParam ''$event''] else []) ss name)"
  by (auto simp: reifyListenerHandler_def bindE_eq_Inr handlerStmts_iff)

lemma reifyListenerHandler_noIr:
  "reifyListenerHandler job u name handlerOps c = Inr f \<Longrightarrow> noIrExpr f"
  by (auto simp: reifyListenerHandler_iff list_all_iff dest!: reifyUpdateOperations_reified)

lemma reifyCreateOp_reified:
  "noIrOp op \<Longrightarrow> reifyCreateOp job u op = Inr r \<Longrightarrow> reified r"
  by (induction job u op rule: reifyCreateOp.induct)
    (auto simp: ng_op_defs bindE_eq_Inr split: if_splits option.splits
      dest: reifyListenerHandler_noIr)

lemma reifyCreateOperations_reified:
  "reifyCreateOperations job u ops = Inr rs \<Longrightarrow> list_all reified rs"
  by (induction ops arbitrary: rs)
    (auto simp: bindE_eq_Inr intro: reifyCreateOp_reified [OF transformOp_noIr])

lemma reifyUpdateOperations_job_unit:
  "reifyUpdateOperations job u ops = reifyUpdateOperations job' u' ops"
  by (induction ops) auto

lemma reifyListenerHandler_job_unit:
  "reifyListenerHandler job u name hs c = reifyListenerHandler job' u' name hs c"
  by (simp add: reifyListenerHandler_def reifyUpdateOperations_job_unit [of job u hs job' u'])

lemma reifyUpdateOperations_transformed:
  "transformExpressionsInOps reifyIrExpression ops = Inr ops' \<Longrightarrow>
   reifyUpdateOperations job u ops' = reifyUpdateOperations job u ops"
proof (induction ops arbitrary: ops')
  case Nil
  then show ?case by simp
next
  case (Cons op ops)
  from Cons.prems obtain op1 ops1 where
    a: "transformExpressionsInOp reifyIrExpression op = Inr op1"
    and b: "transformExpressionsInOps reifyIrExpression ops = Inr ops1"
    and c: "ops' = op1 # ops1"
    by (auto simp: bindE_eq_Inr)
  from a have "transformExpressionsInOp reifyIrExpression op1 = Inr op1"
    by (intro noIrOp_fixed transformOp_noIr)
  with a b c Cons.IH [OF b] show ?case by simp
qed

subsection \<open>The units of a job\<close>

lemma find_sameMeta:
  "list_all2 sameMeta us us' \<Longrightarrow>
   rel_option sameMeta
     (find (\<lambda>u. unit_class u = ViewCompilationUnit \<and> xref u = x) us)
     (find (\<lambda>u. unit_class u = ViewCompilationUnit \<and> xref u = x) us')"
  by (induction us us' rule: list_all2_induct) auto

lemma views_get_sameMeta:
  "list_all2 sameMeta (units job) (units job') \<Longrightarrow>
   rel_option sameMeta (views_get job x) (views_get job' x)"
  unfolding views_get_def by (rule find_sameMeta)

lemma reifyCreateOp_sameMeta:
  assumes "list_all2 sameMeta (units job) (units job')" and "unit_class u = unit_class u'"
  shows "reifyCreateOp job u op = reifyCreateOp job' u' op"
proof (cases op)
  case (TemplateOp x slot tag attrs sp)
  from views_get_sameMeta [OF assms(1), of x] assms(2) TemplateOp show ?thesis
    by (cases "views_get job x"; cases "views_get job' x") auto
next
  case (ListenerOp name hf hs c)
  then show ?thesis
    by (simp add: reifyListenerHandler_job_unit [of job u hf hs c job' u'])
next
  case (VariableOp x name init)
  then show ?thesis by (cases name) auto
qed auto

lemma reifyCreateOperations_sameMeta:
  assumes "list_all2 sameMeta (units job) (units job')" and "unit_class u = unit_class u'"
  shows "reifyCreateOperations job u ops = reifyCreateOperations job' u' ops"
  by (induction ops) (simp_all add: reifyCreateOp_sameMeta [OF assms])

lemma list_all2_sameMeta_refl: "list_all2 sameMeta us us"
  by (simp add: list_all2_same)

lemma unitReified_iff:
  "unitReified job u u' \<longleftrightarrow>
   (\<exists>c up. reifyCreateOperations job u (create u) = Inr c \<and>
      reifyUpdateOperations job u (update u) = Inr up \<and> u' = u\<lparr>create := c, update := up\<rparr>)"
  by (cases u; cases u') (auto simp: unitReified_def)

lemma reifyUnits_step:
  "reifyUnits seen (u # rest) = Inr res \<longleftrightarrow>
   (\<exists>c up. reifyCreateOperations \<lparr>units = seen @ u # rest\<rparr> u (create u) = Inr c \<and>
      reifyUpdateOperations \<lparr>units = seen @ u\<lparr>create := c\<rparr> # rest\<rparr> (u\<lparr>create := c\<rparr>)
        (update u) = Inr up \<and>
      reifyUnits (seen @ [u\<lparr>create := c, update := up\<rparr>]) rest = Inr res)"
  by (simp add: bindE_eq_Inr)

lemma ex_last_unit:
  "(\<exists>c up. A c \<and> B up \<and> (\<exists>r. res = (seen @ [g c up]) @ r \<and> L r)) \<longleftrightarrow>
   (\<exists>u' r. (\<exists>c up. A c \<and> B up \<and> u' = g c up) \<and> res = seen @ u' # r \<and> L r)"
  by simp blast

lemma job_units_update:
  fixes cpl cpl' :: CompilationJob
  shows "cpl\<lparr>units := us\<rparr> = cpl' \<longleftrightarrow> us = units cpl'"
  by (cases cpl; cases cpl') simp

lemma reifyUnits_iff:
  "list_all2 sameMeta (units job) (seen @ rest) \<Longrightarrow>
   reifyUnits seen rest = Inr res \<longleftrightarrow>
   (\<exists>rest'. res = seen @ rest' \<and> list_all2 (unitReified job) rest rest')"
proof (induction rest arbitrary: seen res)
  case Nil
  then show ?case by auto
next
  case (Cons u rest)
  have eq1: "reifyCreateOperations \<lparr>units = seen @ u # rest\<rparr> u ops =
      reifyCreateOperations job u ops" for ops
  proof (rule reifyCreateOperations_sameMeta)
    from Cons.prems have "list_all2 (\<lambda>a b. sameMeta b a) (seen @ u # rest) (units job)"
      by (simp add: list_all2_conv_all_nth)
    then show "list_all2 sameMeta (units \<lparr>units = seen @ u # rest\<rparr>) (units job)"
      by (simp add: list_all2_conv_all_nth eq_commute)
  qed simp
  have eq2: "reifyUpdateOperations \<lparr>units = seen @ u\<lparr>create := c\<rparr> # rest\<rparr> (u\<lparr>create := c\<rparr>) ops =
      reifyUpdateOperations job u ops" for c ops
    by (rule reifyUpdateOperations_job_unit)
  have step: "list_all2 sameMeta (units job) ((seen @ [u\<lparr>create := c, update := up\<rparr>]) @ rest)"
    for c up
  proof -
    have "list_all2 sameMeta (seen @ u # rest) (seen @ u\<lparr>create := c, update := up\<rparr> # rest)"
      by (intro list_all2_appendI) (simp_all add: list_all2_same)
    with Cons.prems have "list_all2 sameMeta (units job) (seen @ u\<lparr>create := c, update := up\<rparr> # rest)"
      by (rule list_all2_trans [rotated]) auto
    then show ?thesis by simp
  qed
  have "reifyUnits seen (u # rest) = Inr res \<longleftrightarrow>
    (\<exists>c up. reifyCreateOperations job u (create u) = Inr c \<and>
      reifyUpdateOperations job u (update u) = Inr up \<and>
      (\<exists>rest'. res = (seen @ [u\<lparr>create := c, update := up\<rparr>]) @ rest' \<and>
         list_all2 (unitReified job) rest rest'))"
    unfolding reifyUnits_step eq1 eq2 Cons.IH [OF step] ..
  also have "\<dots> \<longleftrightarrow> (\<exists>u' rest'. unitReified job u u' \<and> res = seen @ u' # rest' \<and>
         list_all2 (unitReified job) rest rest')"
    unfolding unitReified_iff by (rule ex_last_unit)
  also have "\<dots> \<longleftrightarrow> (\<exists>rest'. res = seen @ rest' \<and> list_all2 (unitReified job) (u # rest) rest')"
    unfolding list_all2_Cons1 by auto
  finally show ?case .
qed

lemma phaseReify_iff:
  "phaseReify cpl = Inr cpl' \<longleftrightarrow> list_all2 (unitReified cpl) (units cpl) (units cpl')"
proof -
  have "list_all2 sameMeta (units cpl) ([] @ units cpl)"
    by (simp add: list_all2_same)
  from reifyUnits_iff [OF this] show ?thesis
    by (simp add: phaseReify_def bindE_eq_Inr job_units_update)
qed


subsection \<open>Unsupported kinds\<close>

lemma transformExprs_member:
  "transformExpressionsInExprs t es = Inr es' \<Longrightarrow> e \<in> set es \<Longrightarrow>
   \<exists>e'. transformExpressionsInExpression t e = Inr e'"
  by (induction es arbitrary: es') (auto simp: bindE_eq_Inr)

lemma transformArgs_member:
  "transformExpressionsInArgs t as = Inr as' \<Longrightarrow> a \<in> set as \<Longrightarrow>
   \<exists>a'. transformExpressionsInArg t a = Inr a'"
  by (induction as arbitrary: as') (auto simp: bindE_eq_Inr)

lemma transformStatements_member:
  "transformExpressionsInStatements t ss = Inr ss' \<Longrightarrow> s \<in> set ss \<Longrightarrow>
   \<exists>s'. transformExpressionsInStatement t s = Inr s'"
  by (induction ss arbitrary: ss') (auto simp: bindE_eq_Inr)

lemma transformOps_member:
  "transformExpressionsInOps t ops = Inr ops' \<Longrightarrow> op \<in> set ops \<Longrightarrow>
   \<exists>op'. transformExpressionsInOp t op = Inr op'"
  by (induction ops arbitrary: ops') (auto simp: bindE_eq_Inr)

lemma reify_supported:
  fixes e :: expr and a :: arg and s :: stmt
  shows "\<And>e'. transformExpressionsInExpression reifyIrExpression e = Inr e'
          \<Longrightarrow> \<not> existsExpr unsupportedIr e"
    and "\<And>a'. transformExpressionsInArg reifyIrExpression a = Inr a'
          \<Longrightarrow> \<not> existsArg unsupportedIr a"
    and "\<And>s'. transformExpressionsInStatement reifyIrExpression s = Inr s'
          \<Longrightarrow> \<not> existsStmt unsupportedIr s"
proof (induction e and a and s)
  case (FunctionExpr ps ss n)
  then show ?case
    by (auto simp: bindE_eq_Inr list_ex_iff dest: transformStatements_member)
next
  case (OutputExpr c es)
  then show ?case
    by (auto simp: bindE_eq_Inr list_ex_iff dest: transformExprs_member)
next
  case (InstructionCall i as)
  then show ?case
    by (auto simp: bindE_eq_Inr list_ex_iff dest: transformArgs_member)
next
  case (PureFunctionExpr off fn args)
  have "\<not> list_ex (existsExpr unsupportedIr) args"
    if "transformExpressionsInExprs reifyIrExpression args = Inr es'" for es'
    unfolding list_ex_iff using that PureFunctionExpr.IH(2) transformExprs_member by blast
  with PureFunctionExpr.prems PureFunctionExpr.IH(1) show ?case
    by (auto simp: bindE_eq_Inr split: option.splits)
next
  case (PipeBindingExpr slot off args)
  then show ?case
    by (auto simp: bindE_eq_Inr list_ex_iff dest: transformExprs_member)
next
  case (PipeBindingVariadicExpr slot off args)
  then show ?case
    by (auto simp: bindE_eq_Inr list_ex_iff dest: transformExprs_member)
next
  case (OtherIrExpr k es)
  then show ?case
    by (auto simp: bindE_eq_Inr)
next
  case (ArgExprs es)
  then show ?case
    by (auto simp: bindE_eq_Inr list_ex_iff dest: transformExprs_member)
next
  case (DeclareVarStmt n v m)
  then show ?case
    by (auto simp: bindE_eq_Inr split: option.splits)
qed (auto simp: bindE_eq_Inr split: option.splits)

lemma transformExprs_supported:
  "transformExpressionsInExprs reifyIrExpression es = Inr es' \<Longrightarrow>
   \<not> list_ex (existsExpr unsupportedIr) es"
  by (auto simp: list_ex_iff dest: transformExprs_member reify_supported)

lemma transformInterpolation_supported:
  "transformExpressionsInInterpolation reifyIrExpression b = Inr b' \<Longrightarrow>
   \<not> existsBinding unsupportedIr b"
  by (cases b) (auto simp: bindE_eq_Inr dest: reify_supported transformExprs_supported)

lemma transformOp_supported:
  "transformExpressionsInOp reifyIrExpression op = Inr op' \<Longrightarrow> \<not> existsOp unsupportedIr op"
proof (induction op arbitrary: op')
  case (ListenerOp name hf hs c)
  then show ?case
    by (auto simp: bindE_eq_Inr list_ex_iff dest: transformOps_member)
qed (auto simp: bindE_eq_Inr
      dest: reify_supported transformExprs_supported transformInterpolation_supported)

lemma transformOp_kind:
  "transformExpressionsInOp t op = Inr op' \<Longrightarrow> kind op' = kind op"
  by (cases op) (auto simp: bindE_eq_Inr)

lemma reifyCreateOp_unsupported:
  "\<not> createSupported (kind op) \<Longrightarrow> reifyCreateOp job u op = Inl (UnsupportedCreateOp (kind op))"
  by (cases op) auto

lemma reifyUpdateOp_unsupported:
  "\<not> updateSupported (kind op) \<Longrightarrow> reifyUpdateOp op = Inl (UnsupportedUpdateOp (kind op))"
  by (cases op) auto

lemma sum_not_Inr: "(\<forall>y. m \<noteq> Inr y) \<longleftrightarrow> (\<exists>e. m = Inl e)"
  by (cases m) auto

lemma reifyCreateOperations_member:
  "reifyCreateOperations job u ops = Inr rs \<Longrightarrow> op \<in> set ops \<Longrightarrow>
   \<exists>op' r. transformExpressionsInOp reifyIrExpression op = Inr op' \<and>
     reifyCreateOp job u op' = Inr r \<and> r \<in> set rs"
  by (induction ops arbitrary: rs) (auto simp: bindE_eq_Inr)

lemma reifyUpdateOperations_member:
  "reifyUpdateOperations job u ops = Inr rs \<Longrightarrow> op \<in> set ops \<Longrightarrow>
   \<exists>op' r. transformExpressionsInOp reifyIrExpression op = Inr op' \<and>
     reifyUpdateOp op' = Inr r \<and> r \<in> set rs"
  by (induction ops arbitrary: rs) (auto simp: bindE_eq_Inr)

lemma reifyCreateOperations_aborts:
  assumes "op \<in> set ops" and "\<not> createSupported (kind op) \<or> existsOp unsupportedIr op"
  shows "\<exists>e. reifyCreateOperations job u ops = Inl e"
proof (rule ccontr)
  assume "\<not> ?thesis"
  then obtain rs where "reifyCreateOperations job u ops = Inr rs"
    by (cases "reifyCreateOperations job u ops") auto
  from reifyCreateOperations_member [OF this assms(1)] obtain op' r where
    "transformExpressionsInOp reifyIrExpression op = Inr op'" "reifyCreateOp job u op' = Inr r"
    by blast
  with assms(2) show False
    by (auto dest: transformOp_supported simp: reifyCreateOp_unsupported transformOp_kind)
qed

lemma reifyUpdateOperations_aborts:
  assumes "op \<in> set ops" and "\<not> updateSupported (kind op) \<or> existsOp unsupportedIr op"
  shows "\<exists>e. reifyUpdateOperations job u ops = Inl e"
proof (rule ccontr)
  assume "\<not> ?thesis"
  then obtain rs where "reifyUpdateOperations job u ops = Inr rs"
    by (cases "reifyUpdateOperations job u ops") auto
  from reifyUpdateOperations_member [OF this assms(1)] obtain op' r where
    "transformExpressionsInOp reifyIrExpression op = Inr op'" "reifyUpdateOp op' = Inr r"
    by blast
  with assms(2) show False
    by (auto dest: transformOp_supported simp: reifyUpdateOp_unsupported transformOp_kind)
qed


subsection \<open>The example job\<close>

lemmas ex_defs = exJob_def exRoot_def exChild_def exJobReified_def exRootReified_def
  exChildReified_def exHost_def

lemma phaseReify_exJob: "phaseReify exJob = Inr exJobReified"
  by (simp add: ex_defs phaseReify_def views_get_def reifyListenerHandler_def ng_op_defs
      ng_expr_defs)

lemma reified_iff: "reified op \<longleftrightarrow> (\<exists>s. op = StatementOp s \<and> noIrStmt s)"
  by (cases op) auto

lemma list_all2_right_all: "list_all2 R xs ys \<Longrightarrow> \<forall>x y. R x y \<longrightarrow> P y \<Longrightarrow> list_all P ys"
  by (induction xs ys rule: list_all2_induct) auto

subsection \<open>Templates and listeners\<close>

lemma reifyCreateOperations_Template:
  "reifyCreateOperations job u [TemplateOp x slot tag attrs sp] = Inr rs \<longleftrightarrow>
   unit_class u = ViewCompilationUnit \<and>
   (\<exists>childView. views_get job x = Some childView \<and>
      rs = [call I_template
              [ArgNum slot, ArgExpr (ReadVarExpr (fnName childView)), ArgNum (decls childView),
               ArgNum (vars childView), ArgStr (Some tag), ArgNum attrs, ArgSpan sp]])"
  by (auto simp: ng_template_def split: option.splits)

lemma phaseReify_create_nth:
  assumes "phaseReify cpl = Inr cpl'" and "i < length (units cpl)"
    and "j < length (create (units cpl ! i))"
  shows "reifyCreateOperations cpl (units cpl ! i) [create (units cpl ! i) ! j] =
    Inr [create (units cpl' ! i) ! j]"
proof -
  from assms(1) have "list_all2 (unitReified cpl) (units cpl) (units cpl')"
    by (simp add: phaseReify_iff)
  with assms(2) have "unitReified cpl (units cpl ! i) (units cpl' ! i)"
    by (simp add: list_all2_conv_all_nth)
  then have "list_all2 (\<lambda>op r. reifyCreateOperations cpl (units cpl ! i) [op] = Inr [r])
      (create (units cpl ! i)) (create (units cpl' ! i))"
    unfolding unitReified_def reifyCreateOperations_iff [symmetric] by simp
  with assms(3) show ?thesis
    by (simp add: list_all2_conv_all_nth)
qed

lemma handlerStmts_first_other:
  "kind op \<noteq> Statement \<Longrightarrow>
   handlerStmts (map StatementOp ss @ op # ops) = Inl (ExpectedReifiedStatements (kind op))"
  by (induction ss) (cases op; simp)+

lemma reified_map_StatementOp: "list_all reified rs \<Longrightarrow> \<exists>ss. rs = map StatementOp ss"
proof (induction rs)
  case Nil
  then show ?case by simp
next
  case (Cons r rs)
  then obtain s ss where "r = StatementOp s" "rs = map StatementOp ss"
    by (auto simp: reified_iff)
  then have "r # rs = map StatementOp (s # ss)" by simp
  then show ?case ..
qed

lemma reifyCreateOp_Listener:
  "reifyCreateOp job u (ListenerOp name hf hs c) = Inr r \<longleftrightarrow>
   (\<exists>ss. reifyUpdateOperations job u hs = Inr (map StatementOp ss) \<and>
      r = call I_listener
            [ArgStr (Some name),
             ArgExpr (FunctionExpr (if c then [FnParam ''$event''] else []) ss hf)])"
  by (simp add: bindE_eq_Inr reifyListenerHandler_iff ng_listener_def split del: if_split)
    blast

lemma reifyCreateOperations_Listener:
  "reifyCreateOperations job u [ListenerOp name hf hs c] = Inr rs \<longleftrightarrow>
   (\<exists>hs' ss. transformExpressionsInOps reifyIrExpression hs = Inr hs' \<and>
      reifyUpdateOperations job u hs = Inr (map StatementOp ss) \<and>
      rs = [call I_listener
              [ArgStr (Some name),
               ArgExpr (FunctionExpr (if c then [FnParam ''$event''] else []) ss hf)]])"
proof -
  have "reifyCreateOperations job u [ListenerOp name hf hs c] = Inr rs \<longleftrightarrow>
    (\<exists>hs'. transformExpressionsInOps reifyIrExpression hs = Inr hs' \<and>
      (\<exists>r. reifyCreateOp job u (ListenerOp name hf hs' c) = Inr r \<and> rs = [r]))"
    by (simp add: bindE_eq_Inr del: reifyCreateOp.simps) blast
  also have "\<dots> \<longleftrightarrow> (\<exists>hs' ss. transformExpressionsInOps reifyIrExpression hs = Inr hs' \<and>
      reifyUpdateOperations job u hs' = Inr (map StatementOp ss) \<and>
      rs = [call I_listener
              [ArgStr (Some name),
               ArgExpr (FunctionExpr (if c then [FnParam ''$event''] else []) ss hf)]])"
    unfolding reifyCreateOp_Listener by blast
  also have "\<dots> \<longleftrightarrow> (\<exists>hs' ss. transformExpressionsInOps reifyIrExpression hs = Inr hs' \<and>
      reifyUpdateOperations job u hs = Inr (map StatementOp ss) \<and>
      rs = [call I_listener
              [ArgStr (Some name),
               ArgExpr (FunctionExpr (if c then [FnParam ''$event''] else []) ss hf)]])"
    using reifyUpdateOperations_transformed [of hs _ job u] by metis
  finally show ?thesis .
qed

subsection \<open>Lists in order\<close>

lemma transformExprs_length:
  "transformExpressionsInExprs t es = Inr es' \<Longrightarrow> length es' = length es"
  by (simp add: transformExprs_iff list_all2_lengthD)

lemma transformExprs_fixed:
  "list_all noIrExpr es \<Longrightarrow> transformExpressionsInExprs reifyIrExpression es = Inr es"
  by (simp add: transformExprs_id noIr_fixed list_all_iff)

lemma reifyUpdateOperations_append:
  "reifyUpdateOperations job u (ops @ ops') =
   bindE (reifyUpdateOperations job u ops)
     (\<lambda>rs. bindE (reifyUpdateOperations job u ops') (\<lambda>rs'. Inr (rs @ rs')))"
proof (induction ops)
  case Nil
  show ?case by (cases "reifyUpdateOperations job u ops'") simp_all
next
  case (Cons op ops)
  show ?case
  proof (cases "transformExpressionsInOp reifyIrExpression op")
    case (Inr op1)
    show ?thesis
    proof (cases "reifyUpdateOp op1")
      case (Inr r)
      with \<open>transformExpressionsInOp reifyIrExpression op = Inr op1\<close> Cons show ?thesis
        by (cases "reifyUpdateOperations job u ops"; cases "reifyUpdateOperations job u ops'")
          simp_all
    qed (simp add: Inr)
  qed simp
qed

lemma reifyCreateOperations_append:
  "reifyCreateOperations job u (ops @ ops') =
   bindE (reifyCreateOperations job u ops)
     (\<lambda>rs. bindE (reifyCreateOperations job u ops') (\<lambda>rs'. Inr (rs @ rs')))"
proof (induction ops)
  case Nil
  show ?case by (cases "reifyCreateOperations job u ops'") simp_all
next
  case (Cons op ops)
  show ?case
  proof (cases "transformExpressionsInOp reifyIrExpression op")
    case (Inr op1)
    show ?thesis
    proof (cases "reifyCreateOp job u op1")
      case (Inr r)
      with \<open>transformExpressionsInOp reifyIrExpression op = Inr op1\<close> Cons show ?thesis
        by (cases "reifyCreateOperations job u ops"; cases "reifyCreateOperations job u ops'")
          simp_all
    qed (simp add: Inr)
  qed simp
qed

subsection \<open>Errors of the pass\<close>

lemma reifyCreateOperations_handler_aborts:
  assumes "ListenerOp evName hf hs c \<in> set ops" and "h \<in> set hs"
    and "\<not> updateSupported (kind h)"
  shows "\<exists>err. reifyCreateOperations job u ops = Inl err"
proof (cases "reifyCreateOperations job u ops")
  case (Inr rs)
  from reifyCreateOperations_member [OF Inr assms(1)] obtain hs' r where
    a: "transformExpressionsInOps reifyIrExpression hs = Inr hs'"
    and b: "reifyCreateOp job u (ListenerOp evName hf hs' c) = Inr r"
    by (auto simp: bindE_eq_Inr)
  from b obtain ss where "reifyUpdateOperations job u hs' = Inr (map StatementOp ss)"
    unfolding reifyCreateOp_Listener by blast
  with a have "reifyUpdateOperations job u hs = Inr (map StatementOp ss)"
    by (simp add: reifyUpdateOperations_transformed)
  moreover from assms(2,3) have "\<exists>err. reifyUpdateOperations job u hs = Inl err"
    by (intro reifyUpdateOperations_aborts) auto
  ultimately show ?thesis by simp
qed simp

lemma list_all2_left_member:
  "list_all2 R xs ys \<Longrightarrow> x \<in> set xs \<Longrightarrow> \<exists>y. R x y"
  by (induction xs ys rule: list_all2_induct) auto

lemma phaseReify_aborts:
  assumes "un \<in> set (units cpl)"
    and "op \<in> set (create un) \<and> (\<not> createSupported (kind op) \<or> existsOp unsupportedIr op) \<or>
         op \<in> set (update un) \<and> (\<not> updateSupported (kind op) \<or> existsOp unsupportedIr op)"
  shows "\<exists>err. phaseReify cpl = Inl err"
proof (cases "phaseReify cpl")
  case (Inr cpl')
  then have "list_all2 (unitReified cpl) (units cpl) (units cpl')"
    by (simp add: phaseReify_iff)
  from list_all2_left_member [OF this assms(1)] obtain c up where
    "reifyCreateOperations cpl un (create un) = Inr c"
    "reifyUpdateOperations cpl un (update un) = Inr up"
    by (auto simp: unitReified_def)
  with assms(2) reifyCreateOperations_aborts [of op "create un" cpl un]
    reifyUpdateOperations_aborts [of op "update un" cpl un]
  show ?thesis by auto
qed simp

subsection \<open>Create operations without templates\<close>

lemma reifyCreateOp_no_template:
  "kind op \<noteq> Template \<Longrightarrow> reifyCreateOp job u op = reifyCreateOp job' u' op"
proof (cases op)
  case (ListenerOp name hf hs c)
  then show ?thesis
    by (simp add: reifyListenerHandler_job_unit [of job u hf hs c job' u'])
next
  case (VariableOp x name init)
  then show ?thesis by (cases name) auto
qed auto

lemma reifyCreateOperations_no_template:
  "\<forall>op\<in>set ops. kind op \<noteq> Template \<Longrightarrow>
   reifyCreateOperations job u ops = reifyCreateOperations job' u' ops"
proof (induction ops)
  case Nil
  show ?case by simp
next
  case (Cons op ops)
  show ?case
  proof (cases "transformExpressionsInOp reifyIrExpression op")
    case (Inr op1)
    with Cons.prems have "kind op1 \<noteq> Template"
      by (simp add: transformOp_kind [OF Inr])
    then have "reifyCreateOp job u op1 = reifyCreateOp job' u' op1"
      by (rule reifyCreateOp_no_template)
    with Inr Cons show ?thesis by simp
  qed simp
qed

section \<open>The claims\<close>

text \<open>
  C6. The expression rewriter replaces a reference read with slot \<open>s\<close> and offset \<open>d\<close>
  by the call of the reference instruction whose one, numeric argument is \<open>s + 1 + d\<close>,
  whenever \<open>s\<close>, \<open>d\<close> and \<open>s + 1 + d\<close> are integers that JavaScript numbers hold and add
  exactly (of magnitude below \<open>2 ^ 53\<close>, the sum at most \<open>2 ^ 53\<close>); so does the walk
  over an expression that is this reference read.
\<close>

theorem C6_reference_slot_plus_one_plus_offset:
  "\<bar>s\<bar> < 2 ^ 53 \<Longrightarrow> \<bar>d\<bar> < 2 ^ 53 \<Longrightarrow> \<bar>s + 1 + d\<bar> \<le> 2 ^ 53 \<Longrightarrow>
   reifyIrExpression (ReferenceExpr (Some s) d) =
     Inr (InstructionCall I_reference [ArgNum (Some (s + 1 + d))]) \<and>
   transformExpressionsInExpression reifyIrExpression (ReferenceExpr (Some s) d) =
     Inr (InstructionCall I_reference [ArgNum (Some (s + 1 + d))])"
proof -
  assume a: "\<bar>s\<bar> < 2 ^ 53" and b: "\<bar>d\<bar> < 2 ^ 53" and c: "\<bar>s + 1 + d\<bar> \<le> 2 ^ 53"
  from a have "\<bar>s + 1\<bar> \<le> 2 ^ 53"
    by simp
  then have "jsAdd (NumInt s) 1 = NumInt (s + 1)"
    by (simp add: roundToDouble_exact)
  moreover from c have "jsAdd (NumInt (s + 1)) d = NumInt (s + 1 + d)"
    by (simp add: roundToDouble_exact)
  ultimately show ?thesis
    by (simp add: ng_reference_def)
qed

theorem C6_reference_slot_plus_one_plus_offset_witness:
  "\<bar>2 :: int\<bar> < 2 ^ 53 \<and> \<bar>3 :: int\<bar> < 2 ^ 53 \<and> \<bar>(2 :: int) + 1 + 3\<bar> \<le> 2 ^ 53 \<and>
   reifyIrExpression (ReferenceExpr (Some 2) 3) =
     Inr (InstructionCall I_reference [ArgNum (Some 6)]) \<and>
   transformExpressionsInExpression reifyIrExpression (ReferenceExpr (Some 2) 3) =
     Inr (InstructionCall I_reference [ArgNum (Some 6)])"
proof -
  have a: "\<bar>2 :: int\<bar> < 2 ^ 53" and b: "\<bar>3 :: int\<bar> < 2 ^ 53"
    and c: "\<bar>(2 :: int) + 1 + 3\<bar> \<le> 2 ^ 53"
    by simp_all
  from C6_reference_slot_plus_one_plus_offset [OF a b c] a b c show ?thesis
    by simp
qed

text \<open>
  C1. After \<^verbatim>\<open>phaseReify\<close> has run on a job (that is, has returned), every operation
  in the create list and in the update list of every unit is a statement operation, and
  no IR expression stands in its statement, at any depth.
\<close>

theorem C1_closure:
  "phaseReify cpl = Inr cpl' \<Longrightarrow> u \<in> set (units cpl') \<Longrightarrow>
   op \<in> set (create u) \<union> set (update u) \<Longrightarrow> \<exists>s. op = StatementOp s \<and> noIrStmt s"
proof -
  assume a: "phaseReify cpl = Inr cpl'" and b: "u \<in> set (units cpl')"
    and c: "op \<in> set (create u) \<union> set (update u)"
  from a have "list_all2 (unitReified cpl) (units cpl) (units cpl')"
    by (simp add: phaseReify_iff)
  then have "list_all (\<lambda>u. list_all reified (create u) \<and> list_all reified (update u))
      (units cpl')"
    by (rule list_all2_right_all)
      (auto simp: unitReified_def
        dest: reifyCreateOperations_reified reifyUpdateOperations_reified)
  with b c have "reified op"
    by (auto simp: list_all_iff)
  then show ?thesis
    by (simp add: reified_iff)
qed

theorem C1_closure_witness:
  "phaseReify exJob = Inr exJobReified \<and> exRootReified \<in> set (units exJobReified) \<and>
   call I_elementEnd [ArgSpan None] \<in> set (create exRootReified) \<union> set (update exRootReified) \<and>
   (\<exists>s. call I_elementEnd [ArgSpan None] = StatementOp s \<and> noIrStmt s)"
proof -
  have a: "phaseReify exJob = Inr exJobReified"
    by (rule phaseReify_exJob)
  have b: "exRootReified \<in> set (units exJobReified)"
    by (simp add: exJobReified_def)
  have c: "call I_elementEnd [ArgSpan None] \<in> set (create exRootReified) \<union> set (update exRootReified)"
    by (simp add: exRootReified_def)
  from C1_closure [OF a b c] a b c show ?thesis
    by simp
qed

text \<open>
  C2. The instruction call that replaces a nested-template create operation takes the name
  of the generated function, the count of declarations and the count of variables from
  the unit that the job's view map has at the operation's xref, whatever the enclosing
  unit is: for the operation alone, and for the operation at any place of a create list
  on which the pass has run. If the enclosing unit is not a view unit, lowering the
  operation, or a list that holds it, ends in an error, which for the operation alone is
  the assertion that a component is being compiled.
\<close>

theorem C2_template_wiring:
  "(unit_class u = ViewCompilationUnit \<and> views_get job x = Some childView \<longrightarrow>
      reifyCreateOperations job u [TemplateOp x slot tag attrs sp] =
        Inr [call I_template
               [ArgNum slot, ArgExpr (ReadVarExpr (fnName childView)), ArgNum (decls childView),
                ArgNum (vars childView), ArgStr (Some tag), ArgNum attrs, ArgSpan sp]]) \<and>
   (unit_class u \<noteq> ViewCompilationUnit \<longrightarrow>
      reifyCreateOperations job u [TemplateOp x slot tag attrs sp] =
        Inl MustBeCompilingComponent) \<and>
   (unit_class u \<noteq> ViewCompilationUnit \<and> TemplateOp x slot tag attrs sp \<in> set ops \<longrightarrow>
      (\<exists>e. reifyCreateOperations job u ops = Inl e)) \<and>
   (phaseReify cpl = Inr cpl' \<and> i < length (units cpl) \<and>
    j < length (create (units cpl ! i)) \<and>
    create (units cpl ! i) ! j = TemplateOp x slot tag attrs sp \<longrightarrow>
      unit_class (units cpl ! i) = ViewCompilationUnit \<and>
      (\<exists>childView. views_get cpl x = Some childView \<and>
         create (units cpl' ! i) ! j =
           call I_template
             [ArgNum slot, ArgExpr (ReadVarExpr (fnName childView)), ArgNum (decls childView),
              ArgNum (vars childView), ArgStr (Some tag), ArgNum attrs, ArgSpan sp]))"
proof (intro conjI impI)
  assume "unit_class u = ViewCompilationUnit \<and> views_get job x = Some childView"
  then show "reifyCreateOperations job u [TemplateOp x slot tag attrs sp] =
      Inr [call I_template
             [ArgNum slot, ArgExpr (ReadVarExpr (fnName childView)), ArgNum (decls childView),
              ArgNum (vars childView), ArgStr (Some tag), ArgNum attrs, ArgSpan sp]]"
    by (simp add: ng_template_def)
next
  assume "unit_class u \<noteq> ViewCompilationUnit"
  then show "reifyCreateOperations job u [TemplateOp x slot tag attrs sp] =
      Inl MustBeCompilingComponent"
    by simp
next
  assume a: "unit_class u \<noteq> ViewCompilationUnit \<and> TemplateOp x slot tag attrs sp \<in> set ops"
  show "\<exists>e. reifyCreateOperations job u ops = Inl e"
  proof (cases "reifyCreateOperations job u ops")
    case (Inr rs)
    from reifyCreateOperations_member [OF Inr] a show ?thesis
      by fastforce
  qed simp
next
  assume a: "phaseReify cpl = Inr cpl' \<and> i < length (units cpl) \<and>
    j < length (create (units cpl ! i)) \<and>
    create (units cpl ! i) ! j = TemplateOp x slot tag attrs sp"
  then have "reifyCreateOperations cpl (units cpl ! i) [TemplateOp x slot tag attrs sp] =
      Inr [create (units cpl' ! i) ! j]"
    using phaseReify_create_nth [of cpl cpl' i j] by simp
  then have b: "unit_class (units cpl ! i) = ViewCompilationUnit \<and>
      (\<exists>childView. views_get cpl x = Some childView \<and>
         create (units cpl' ! i) ! j =
           call I_template
             [ArgNum slot, ArgExpr (ReadVarExpr (fnName childView)), ArgNum (decls childView),
              ArgNum (vars childView), ArgStr (Some tag), ArgNum attrs, ArgSpan sp])"
    unfolding reifyCreateOperations_Template by simp
  from b show "unit_class (units cpl ! i) = ViewCompilationUnit" ..
  from b show "\<exists>childView. views_get cpl x = Some childView \<and>
         create (units cpl' ! i) ! j =
           call I_template
             [ArgNum slot, ArgExpr (ReadVarExpr (fnName childView)), ArgNum (decls childView),
              ArgNum (vars childView), ArgStr (Some tag), ArgNum attrs, ArgSpan sp]" ..
qed

theorem C2_template_wiring_witness:
  "views_get exJob 1 = Some exChild \<and>
   reifyCreateOperations exJob exRoot [TemplateOp 1 (Some 1) ''ng-template'' None None] =
     Inr [call I_template
            [ArgNum (Some 1), ArgExpr (ReadVarExpr (Some ''App_ng_template_1_Template'')),
             ArgNum (Some 2), ArgNum (Some 1), ArgStr (Some ''ng-template''), ArgNum None,
             ArgSpan None]] \<and>
   reifyCreateOperations exJob exHost [TemplateOp 1 (Some 1) ''ng-template'' None None] =
     Inl MustBeCompilingComponent \<and>
   (\<exists>e. reifyCreateOperations exJob exHost
          [ContainerEndOp, TemplateOp 1 (Some 1) ''ng-template'' None None] = Inl e) \<and>
   phaseReify exJob = Inr exJobReified \<and>
   create (units exJobReified ! 0) ! 1 =
     call I_template
       [ArgNum (Some 1), ArgExpr (ReadVarExpr (fnName exChild)), ArgNum (decls exChild),
        ArgNum (vars exChild), ArgStr (Some ''ng-template''), ArgNum None, ArgSpan None]"
proof -
  have v: "views_get exJob 1 = Some exChild"
    by (simp add: views_get_def ex_defs)
  have r: "unit_class exRoot = ViewCompilationUnit"
    by (simp add: ex_defs)
  have h: "unit_class exHost \<noteq> ViewCompilationUnit"
    by (simp add: ex_defs)
  have p: "phaseReify exJob = Inr exJobReified \<and> 0 < length (units exJob) \<and>
      1 < length (create (units exJob ! 0)) \<and>
      create (units exJob ! 0) ! 1 = TemplateOp 1 (Some 1) ''ng-template'' None None"
    by (simp add: phaseReify_exJob) (simp add: ex_defs)
  note t = C2_template_wiring [of exRoot exJob 1 exChild "Some 1" "''ng-template''" None None]
    C2_template_wiring [of exHost exJob 1 exChild "Some 1" "''ng-template''" None None
      "[ContainerEndOp, TemplateOp 1 (Some 1) ''ng-template'' None None]"
      exJob exJobReified 0 1]
  from t(1) v r have a: "reifyCreateOperations exJob exRoot
      [TemplateOp 1 (Some 1) ''ng-template'' None None] =
     Inr [call I_template
            [ArgNum (Some 1), ArgExpr (ReadVarExpr (Some ''App_ng_template_1_Template'')),
             ArgNum (Some 2), ArgNum (Some 1), ArgStr (Some ''ng-template''), ArgNum None,
             ArgSpan None]]"
    by (simp add: exChild_def)
  from t(2) h have b: "reifyCreateOperations exJob exHost
      [TemplateOp 1 (Some 1) ''ng-template'' None None] = Inl MustBeCompilingComponent"
    by blast
  from t(2) h have c: "\<exists>e. reifyCreateOperations exJob exHost
          [ContainerEndOp, TemplateOp 1 (Some 1) ''ng-template'' None None] = Inl e"
    by simp
  from t(2) p v have d: "create (units exJobReified ! 0) ! 1 =
     call I_template
       [ArgNum (Some 1), ArgExpr (ReadVarExpr (fnName exChild)), ArgNum (decls exChild),
        ArgNum (vars exChild), ArgStr (Some ''ng-template''), ArgNum None, ArgSpan None]"
    by auto
  from v a b c d p show ?thesis
    by blast
qed

text \<open>
  C3. The function that a listener handler is turned into has no parameter when the flag
  \<^verbatim>\<open>consumesDollarEvent\<close> is false and the one parameter \<^verbatim>\<open>$event\<close> when it is
  true, however many statements its body has; its body is the list of the statements of
  the reified handler operations, in their order, and its name the handler's name. The
  listener operation is replaced by the listener instruction call on the event name and
  this function. The extraction of the statements ends in an error at the first handler
  operation that is not a statement operation; after \<^verbatim>\<open>reifyUpdateOperations\<close> has
  returned there is none.
\<close>

theorem C3_listener_function_shape:
  "(reifyListenerHandler job u name handlerOps c = Inr f \<longleftrightarrow>
      (\<exists>ss. reifyUpdateOperations job u handlerOps = Inr (map StatementOp ss) \<and>
         f = FunctionExpr (if c then [FnParam ''$event''] else []) ss name)) \<and>
   (reifyUpdateOperations job u handlerOps = Inr rs \<longrightarrow>
      (\<exists>ss. rs = map StatementOp ss \<and>
         reifyListenerHandler job u name handlerOps c =
           Inr (FunctionExpr (if c then [FnParam ''$event''] else []) ss name))) \<and>
   (reifyCreateOperations job u [ListenerOp evName name handlerOps c] = Inr rs' \<longrightarrow>
      (\<exists>ss. reifyUpdateOperations job u handlerOps = Inr (map StatementOp ss) \<and>
         rs' = [call I_listener
                  [ArgStr (Some evName),
                   ArgExpr (FunctionExpr (if c then [FnParam ''$event''] else []) ss name)]])) \<and>
   handlerStmts (map StatementOp ss') = Inr ss' \<and>
   (kind op \<noteq> Statement \<longrightarrow>
      handlerStmts (map StatementOp ss' @ op # ops) =
        Inl (ExpectedReifiedStatements (kind op)))"
proof (intro conjI impI)
  show "reifyListenerHandler job u name handlerOps c = Inr f \<longleftrightarrow>
      (\<exists>ss. reifyUpdateOperations job u handlerOps = Inr (map StatementOp ss) \<and>
         f = FunctionExpr (if c then [FnParam ''$event''] else []) ss name)"
    by (rule reifyListenerHandler_iff)
next
  assume a: "reifyUpdateOperations job u handlerOps = Inr rs"
  then obtain ss where "rs = map StatementOp ss"
    using reified_map_StatementOp [OF reifyUpdateOperations_reified] by blast
  with a show "\<exists>ss. rs = map StatementOp ss \<and>
         reifyListenerHandler job u name handlerOps c =
           Inr (FunctionExpr (if c then [FnParam ''$event''] else []) ss name)"
    by (auto simp: reifyListenerHandler_iff)
next
  assume "reifyCreateOperations job u [ListenerOp evName name handlerOps c] = Inr rs'"
  then show "\<exists>ss. reifyUpdateOperations job u handlerOps = Inr (map StatementOp ss) \<and>
         rs' = [call I_listener
                  [ArgStr (Some evName),
                   ArgExpr (FunctionExpr (if c then [FnParam ''$event''] else []) ss name)]]"
    unfolding reifyCreateOperations_Listener by blast
next
  show "handlerStmts (map StatementOp ss') = Inr ss'"
    by (simp add: handlerStmts_iff)
next
  assume "kind op \<noteq> Statement"
  then show "handlerStmts (map StatementOp ss' @ op # ops) =
      Inl (ExpectedReifiedStatements (kind op))"
    by (rule handlerStmts_first_other)
qed

theorem C3_listener_function_shape_witness:
  "reifyUpdateOperations exJob exRoot exHandlerOps = Inr (map StatementOp exHandlerStmts) \<and>
   reifyListenerHandler exJob exRoot (Some ''h'') exHandlerOps False =
     Inr (FunctionExpr [] exHandlerStmts (Some ''h'')) \<and>
   reifyListenerHandler exJob exRoot (Some ''h'') exHandlerOps True =
     Inr (FunctionExpr [FnParam ''$event''] exHandlerStmts (Some ''h'')) \<and>
   reifyCreateOperations exJob exRoot [ListenerOp ''click'' (Some ''h'') exHandlerOps True] =
     Inr [call I_listener
            [ArgStr (Some ''click''),
             ArgExpr (FunctionExpr [FnParam ''$event''] exHandlerStmts (Some ''h''))]] \<and>
   handlerStmts (map StatementOp exHandlerStmts @ AdvanceOp 1 None # []) =
     Inl (ExpectedReifiedStatements Advance)"
proof -
  have a: "reifyUpdateOperations exJob exRoot exHandlerOps = Inr (map StatementOp exHandlerStmts)"
    by (simp add: exHandlerOps_def exHandlerStmts_def ng_expr_defs)
  have k: "kind (AdvanceOp 1 None) \<noteq> Statement"
    by simp
  have c: "reifyCreateOperations exJob exRoot [ListenerOp ''click'' (Some ''h'') exHandlerOps True] =
     Inr [call I_listener
            [ArgStr (Some ''click''),
             ArgExpr (FunctionExpr [FnParam ''$event''] exHandlerStmts (Some ''h''))]]"
    by (simp add: exHandlerOps_def exHandlerStmts_def ng_expr_defs ng_listener_def
        reifyListenerHandler_def)
  note t = C3_listener_function_shape [of exJob exRoot "Some ''h''" exHandlerOps False _
      "map StatementOp exHandlerStmts" "''click''" _ exHandlerStmts "AdvanceOp 1 None" "[]"]
    C3_listener_function_shape [of exJob exRoot "Some ''h''" exHandlerOps True _
      "map StatementOp exHandlerStmts" "''click''" _ exHandlerStmts "AdvanceOp 1 None" "[]"]
  from t(1) a have f: "reifyListenerHandler exJob exRoot (Some ''h'') exHandlerOps False =
     Inr (FunctionExpr [] exHandlerStmts (Some ''h''))"
    by (auto simp: inj_map_eq_map [OF injI])
  from t(2) a have g: "reifyListenerHandler exJob exRoot (Some ''h'') exHandlerOps True =
     Inr (FunctionExpr [FnParam ''$event''] exHandlerStmts (Some ''h''))"
    by (auto simp: inj_map_eq_map [OF injI])
  from t(1) k have h: "handlerStmts (map StatementOp exHandlerStmts @ AdvanceOp 1 None # []) =
     Inl (ExpectedReifiedStatements Advance)"
    by simp
  from a f g c h show ?thesis
    by blast
qed

text \<open>
  C4. A property update operation whose expression, already rewritten, is an interpolation
  is replaced by the call of the property-interpolate instruction on the name, all the
  strings of the interpolation, all its expressions and the source span (so \<open>k\<close>
  expressions and, the interpolation having one string more than expressions, \<open>k + 1\<close>
  strings); on an interpolation not yet rewritten the call has the rewritten
  expressions, as many as there were. When the expression is not an interpolation, the
  replacement is the call of the property instruction on the name, the expression and the
  source span.
\<close>

theorem C4_property_interpolation:
  "(list_all noIrExpr es \<longrightarrow>
      reifyUpdateOperations job u [PropertyOp name (Interpolation strs es) sp] =
        Inr [call I_propertyInterpolate
               [ArgStr (Some name), ArgStrs strs, ArgExprs es, ArgSpan sp]]) \<and>
   (reifyUpdateOperations job u [PropertyOp name (Interpolation strs es) sp] = Inr rs \<longrightarrow>
      (\<exists>es'. transformExpressionsInExprs reifyIrExpression es = Inr es' \<and>
         length es' = length es \<and>
         rs = [call I_propertyInterpolate
                 [ArgStr (Some name), ArgStrs strs, ArgExprs es', ArgSpan sp]])) \<and>
   (noIrExpr e \<longrightarrow>
      reifyUpdateOperations job u [PropertyOp name (Expr e) sp] =
        Inr [call I_property [ArgStr (Some name), ArgExpr e, ArgSpan sp]]) \<and>
   (reifyUpdateOperations job u [PropertyOp name (Expr e) sp] = Inr rs' \<longrightarrow>
      (\<exists>e'. transformExpressionsInExpression reifyIrExpression e = Inr e' \<and>
         rs' = [call I_property [ArgStr (Some name), ArgExpr e', ArgSpan sp]])) \<and>
   reifyUpdateOp (PropertyOp name (Interpolation strs es) sp) =
     Inr (call I_propertyInterpolate
            [ArgStr (Some name), ArgStrs strs, ArgExprs es, ArgSpan sp]) \<and>
   reifyUpdateOp (PropertyOp name (Expr e) sp) =
     Inr (call I_property [ArgStr (Some name), ArgExpr e, ArgSpan sp])"
proof (intro conjI impI)
  assume "list_all noIrExpr es"
  then show "reifyUpdateOperations job u [PropertyOp name (Interpolation strs es) sp] =
      Inr [call I_propertyInterpolate
             [ArgStr (Some name), ArgStrs strs, ArgExprs es, ArgSpan sp]]"
    by (simp add: transformExprs_fixed ng_propertyInterpolate_def)
next
  assume "reifyUpdateOperations job u [PropertyOp name (Interpolation strs es) sp] = Inr rs"
  then show "\<exists>es'. transformExpressionsInExprs reifyIrExpression es = Inr es' \<and>
      length es' = length es \<and>
      rs = [call I_propertyInterpolate
              [ArgStr (Some name), ArgStrs strs, ArgExprs es', ArgSpan sp]]"
    by (auto simp: bindE_eq_Inr ng_propertyInterpolate_def dest: transformExprs_length)
next
  assume "noIrExpr e"
  then show "reifyUpdateOperations job u [PropertyOp name (Expr e) sp] =
      Inr [call I_property [ArgStr (Some name), ArgExpr e, ArgSpan sp]]"
    by (simp add: noIr_fixed ng_property_def)
next
  assume "reifyUpdateOperations job u [PropertyOp name (Expr e) sp] = Inr rs'"
  then show "\<exists>e'. transformExpressionsInExpression reifyIrExpression e = Inr e' \<and>
      rs' = [call I_property [ArgStr (Some name), ArgExpr e', ArgSpan sp]]"
    by (auto simp: bindE_eq_Inr ng_property_def)
qed (simp_all add: ng_propertyInterpolate_def ng_property_def)

theorem C4_property_interpolation_witness:
  "reifyUpdateOperations exJob exRoot
     [PropertyOp ''title'' (Interpolation [''Hello, '', ''!''] [ReadVarExpr (Some ''name'')]) None] =
     Inr [call I_propertyInterpolate
            [ArgStr (Some ''title''), ArgStrs [''Hello, '', ''!''],
             ArgExprs [ReadVarExpr (Some ''name'')], ArgSpan None]] \<and>
   reifyUpdateOperations exJob exRoot
     [PropertyOp ''title''
        (Interpolation [''Hello, '', ''!''] [ReadVariableExpr 5 (Some ''name'')]) None] =
     Inr [call I_propertyInterpolate
            [ArgStr (Some ''title''), ArgStrs [''Hello, '', ''!''],
             ArgExprs [ReadVarExpr (Some ''name'')], ArgSpan None]] \<and>
   reifyUpdateOperations exJob exRoot
     [PropertyOp ''title'' (Expr (ReadVarExpr (Some ''name''))) None] =
     Inr [call I_property
            [ArgStr (Some ''title''), ArgExpr (ReadVarExpr (Some ''name'')), ArgSpan None]] \<and>
   reifyUpdateOperations exJob exRoot
     [PropertyOp ''title'' (Expr (ReadVariableExpr 5 (Some ''name''))) None] =
     Inr [call I_property
            [ArgStr (Some ''title''), ArgExpr (ReadVarExpr (Some ''name'')), ArgSpan None]]"
proof -
  have a: "list_all noIrExpr [ReadVarExpr (Some ''name'')]" "noIrExpr (ReadVarExpr (Some ''name''))"
    by simp_all
  have b: "reifyUpdateOperations exJob exRoot
     [PropertyOp ''title''
        (Interpolation [''Hello, '', ''!''] [ReadVariableExpr 5 (Some ''name'')]) None] =
     Inr [call I_propertyInterpolate
            [ArgStr (Some ''title''), ArgStrs [''Hello, '', ''!''],
             ArgExprs [ReadVarExpr (Some ''name'')], ArgSpan None]]"
    by (simp add: ng_propertyInterpolate_def)
  have c: "reifyUpdateOperations exJob exRoot
     [PropertyOp ''title'' (Expr (ReadVariableExpr 5 (Some ''name''))) None] =
     Inr [call I_property
            [ArgStr (Some ''title''), ArgExpr (ReadVarExpr (Some ''name'')), ArgSpan None]]"
    by (simp add: ng_property_def)
  from C4_property_interpolation [of "[ReadVarExpr (Some ''name'')]" exJob exRoot "''title''"
      "[''Hello, '', ''!'']" None _ "ReadVarExpr (Some ''name'')"] a b c
  show ?thesis
    by blast
qed

text \<open>
  C5. Lowering a list of operations replaces each operation in its place by the one
  operation that lowering it alone gives: the result has the length of the list, and at
  every position what the operation at that position becomes. The operations are
  processed from the first to the last (lowering \<open>ops @ ops'\<close> is lowering \<open>ops\<close>,
  then \<open>ops'\<close>, and the first error ends it). The units of a job are processed in the
  same way, each unit with its create list and its update list.
\<close>

theorem C5_order_preserved:
  "(reifyCreateOperations job u ops = Inr rs \<longleftrightarrow>
      list_all2 (\<lambda>op r. reifyCreateOperations job u [op] = Inr [r]) ops rs) \<and>
   (reifyUpdateOperations job u ops = Inr rs \<longleftrightarrow>
      list_all2 (\<lambda>op r. reifyUpdateOperations job u [op] = Inr [r]) ops rs) \<and>
   reifyCreateOperations job u (ops @ ops') =
     bindE (reifyCreateOperations job u ops)
       (\<lambda>rs. bindE (reifyCreateOperations job u ops') (\<lambda>rs'. Inr (rs @ rs'))) \<and>
   reifyUpdateOperations job u (ops @ ops') =
     bindE (reifyUpdateOperations job u ops)
       (\<lambda>rs. bindE (reifyUpdateOperations job u ops') (\<lambda>rs'. Inr (rs @ rs'))) \<and>
   (phaseReify cpl = Inr cpl' \<longleftrightarrow> list_all2 (unitReified cpl) (units cpl) (units cpl'))"
  using reifyCreateOperations_iff [of job u ops rs] reifyUpdateOperations_iff [of job u ops rs]
    reifyCreateOperations_append [of job u ops ops'] reifyUpdateOperations_append [of job u ops ops']
    phaseReify_iff [of cpl cpl']
  by blast

theorem C5_order_preserved_witness:
  "reifyUpdateOperations exJob exChild (update exChild) = Inr (update exChildReified) \<and>
   list_all2 (\<lambda>op r. reifyUpdateOperations exJob exChild [op] = Inr [r])
     (update exChild) (update exChildReified) \<and>
   phaseReify exJob = Inr exJobReified \<and>
   list_all2 (unitReified exJob) (units exJob) (units exJobReified)"
proof -
  have a: "reifyUpdateOperations exJob exChild (update exChild) = Inr (update exChildReified)"
    by (simp add: exChild_def exChildReified_def ng_op_defs ng_expr_defs)
  from C5_order_preserved [of exJob exChild "update exChild" "update exChildReified" _
      exJob exJobReified] a phaseReify_exJob
  show ?thesis
    by blast
qed

text \<open>
  C7. A host property update operation whose expression is an interpolation always ends
  the lowering in an error, alone or in a list, and never becomes an instruction call;
  the error is ``not yet handled'' once the expressions of the interpolation are rewritten
  (an expression that cannot be rewritten raises its own error before). When the
  expression is not an interpolation, the operation is replaced by the call of the
  host-property instruction on the name and the (rewritten) expression.
\<close>

theorem C7_host_property:
  "(\<exists>err. reifyUpdateOperations job u [HostPropertyOp name (Interpolation strs es)] = Inl err) \<and>
   (list_all noIrExpr es \<longrightarrow>
      reifyUpdateOperations job u [HostPropertyOp name (Interpolation strs es)] =
        Inl NotYetHandled) \<and>
   (transformExpressionsInExprs reifyIrExpression es = Inr es' \<longrightarrow>
      reifyUpdateOperations job u [HostPropertyOp name (Interpolation strs es)] =
        Inl NotYetHandled) \<and>
   reifyUpdateOp (HostPropertyOp name (Interpolation strs es)) = Inl NotYetHandled \<and>
   (HostPropertyOp name (Interpolation strs es) \<in> set ops \<longrightarrow>
      (\<exists>err. reifyUpdateOperations job u ops = Inl err)) \<and>
   (noIrExpr e \<longrightarrow>
      reifyUpdateOperations job u [HostPropertyOp name (Expr e)] =
        Inr [call I_hostProperty [ArgStr (Some name), ArgExpr e]]) \<and>
   reifyUpdateOperations job u [HostPropertyOp name (Expr e)] =
     bindE (transformExpressionsInExpression reifyIrExpression e)
       (\<lambda>e'. Inr [call I_hostProperty [ArgStr (Some name), ArgExpr e']]) \<and>
   reifyUpdateOp (HostPropertyOp name (Expr e)) =
     Inr (call I_hostProperty [ArgStr (Some name), ArgExpr e])"
proof (intro conjI impI)
  show "\<exists>err. reifyUpdateOperations job u [HostPropertyOp name (Interpolation strs es)] = Inl err"
    by (cases "transformExpressionsInExprs reifyIrExpression es") simp_all
next
  assume "list_all noIrExpr es"
  then show "reifyUpdateOperations job u [HostPropertyOp name (Interpolation strs es)] =
      Inl NotYetHandled"
    by (simp add: transformExprs_fixed)
next
  assume "transformExpressionsInExprs reifyIrExpression es = Inr es'"
  then show "reifyUpdateOperations job u [HostPropertyOp name (Interpolation strs es)] =
      Inl NotYetHandled"
    by simp
next
  assume a: "HostPropertyOp name (Interpolation strs es) \<in> set ops"
  show "\<exists>err. reifyUpdateOperations job u ops = Inl err"
  proof (cases "reifyUpdateOperations job u ops")
    case (Inr rs)
    from reifyUpdateOperations_member [OF Inr a] show ?thesis
      by (auto simp: bindE_eq_Inr)
  qed simp
next
  assume "noIrExpr e"
  then show "reifyUpdateOperations job u [HostPropertyOp name (Expr e)] =
      Inr [call I_hostProperty [ArgStr (Some name), ArgExpr e]]"
    by (simp add: noIr_fixed ng_hostProperty_def)
next
  show "reifyUpdateOperations job u [HostPropertyOp name (Expr e)] =
     bindE (transformExpressionsInExpression reifyIrExpression e)
       (\<lambda>e'. Inr [call I_hostProperty [ArgStr (Some name), ArgExpr e']])"
    by (cases "transformExpressionsInExpression reifyIrExpression e")
      (simp_all add: ng_hostProperty_def)
qed (simp_all add: ng_hostProperty_def)

theorem C7_host_property_witness:
  "reifyUpdateOperations exJob exHost
     [HostPropertyOp ''id'' (Interpolation [''a'', ''b''] [ReadVarExpr (Some ''x'')])] =
     Inl NotYetHandled \<and>
   reifyUpdateOperations exJob exHost
     [HostPropertyOp ''id'' (Interpolation [''a'', ''b''] [ReadVariableExpr 2 (Some ''x'')])] =
     Inl NotYetHandled \<and>
   (\<exists>err. reifyUpdateOperations exJob exHost
      [AdvanceOp 1 None,
       HostPropertyOp ''id'' (Interpolation [''a'', ''b''] [ReadVarExpr (Some ''x'')])] =
      Inl err) \<and>
   reifyUpdateOperations exJob exHost [HostPropertyOp ''id'' (Expr (ReadVarExpr (Some ''x'')))] =
     Inr [call I_hostProperty [ArgStr (Some ''id''), ArgExpr (ReadVarExpr (Some ''x''))]] \<and>
   reifyUpdateOperations exJob exHost (update exHost) =
     Inr [call I_hostProperty [ArgStr (Some ''id''), ArgExpr (ReadVarExpr (Some ''id''))]]"
proof -
  have a: "list_all noIrExpr [ReadVarExpr (Some ''x'')]" "noIrExpr (ReadVarExpr (Some ''x''))"
    by simp_all
  have b: "transformExpressionsInExprs reifyIrExpression [ReadVariableExpr 2 (Some ''x'')] =
      Inr [ReadVarExpr (Some ''x'')]"
    by simp
  have c: "HostPropertyOp ''id'' (Interpolation [''a'', ''b''] [ReadVarExpr (Some ''x'')]) \<in>
      set [AdvanceOp 1 None,
        HostPropertyOp ''id'' (Interpolation [''a'', ''b''] [ReadVarExpr (Some ''x'')])]"
    by simp
  have d: "reifyUpdateOperations exJob exHost (update exHost) =
     Inr [call I_hostProperty [ArgStr (Some ''id''), ArgExpr (ReadVarExpr (Some ''id''))]]"
    by (simp add: exHost_def ng_hostProperty_def)
  note t = C7_host_property [of exJob exHost "''id''" "[''a'', ''b'']"
      "[ReadVarExpr (Some ''x'')]" _
      "[AdvanceOp 1 None,
        HostPropertyOp ''id'' (Interpolation [''a'', ''b''] [ReadVarExpr (Some ''x'')])]"
      "ReadVarExpr (Some ''x'')"]
    C7_host_property [of exJob exHost "''id''" "[''a'', ''b'']"
      "[ReadVariableExpr 2 (Some ''x'')]" "[ReadVarExpr (Some ''x'')]"]
  from t(1) a c t(2) b d show ?thesis
    by blast
qed

text \<open>
  C8. An operation whose kind the \<^verbatim>\<open>switch\<close> of \<^verbatim>\<open>reifyCreateOperations\<close> (of
  \<^verbatim>\<open>reifyUpdateOperations\<close>) has no \<^verbatim>\<open>case\<close> for makes it return the error that
  names this kind; a lexical read, a pure-function parameter, a restore-view whose view is
  a number and an IR expression of a kind without a \<^verbatim>\<open>case\<close> make the rewriter return
  the error of that kind. Nothing is dropped or passed through: an expression that holds
  such a node at any depth, a list that holds such an operation or an operation with such
  an expression, a listener with such a handler operation, and a job with such a unit all
  end in an error (the one of the first node that fails).
\<close>

theorem C8_fatal_on_unknown:
  "(\<not> createSupported (kind op) \<longrightarrow>
      reifyCreateOp job u op = Inl (UnsupportedCreateOp (kind op))) \<and>
   (\<not> updateSupported (kind op) \<longrightarrow>
      reifyUpdateOp op = Inl (UnsupportedUpdateOp (kind op))) \<and>
   (\<not> createSupported (kind op) \<and> transformExpressionsInOp reifyIrExpression op = Inr op' \<longrightarrow>
      reifyCreateOperations job u [op] = Inl (UnsupportedCreateOp (kind op))) \<and>
   (\<not> updateSupported (kind op) \<and> transformExpressionsInOp reifyIrExpression op = Inr op' \<longrightarrow>
      reifyUpdateOperations job u [op] = Inl (UnsupportedUpdateOp (kind op))) \<and>
   transformExpressionsInExpression reifyIrExpression (LexicalReadExpr n) =
     Inl (UnresolvedLexicalRead n) \<and>
   transformExpressionsInExpression reifyIrExpression (PureFunctionParameterExpr i) =
     Inl ExpectedPureFunctionParameterExprExtracted \<and>
   transformExpressionsInExpression reifyIrExpression (RestoreViewExpr_number v) =
     Inl UnresolvedRestoreView \<and>
   reifyIrExpression (OtherIrExpr k es) = Inl (UnsupportedIrExpressionKind k) \<and>
   (transformExpressionsInExprs reifyIrExpression es = Inr es' \<longrightarrow>
      transformExpressionsInExpression reifyIrExpression (OtherIrExpr k es) =
        Inl (UnsupportedIrExpressionKind k)) \<and>
   (existsExpr unsupportedIr e \<longrightarrow>
      (\<exists>err. transformExpressionsInExpression reifyIrExpression e = Inl err)) \<and>
   (op \<in> set ops \<and> (\<not> createSupported (kind op) \<or> existsOp unsupportedIr op) \<longrightarrow>
      (\<exists>err. reifyCreateOperations job u ops = Inl err)) \<and>
   (op \<in> set ops \<and> (\<not> updateSupported (kind op) \<or> existsOp unsupportedIr op) \<longrightarrow>
      (\<exists>err. reifyUpdateOperations job u ops = Inl err)) \<and>
   (ListenerOp evName hf hs c \<in> set ops \<and> h \<in> set hs \<and> \<not> updateSupported (kind h) \<longrightarrow>
      (\<exists>err. reifyCreateOperations job u ops = Inl err)) \<and>
   (un \<in> set (units cpl) \<and>
    (op \<in> set (create un) \<and> (\<not> createSupported (kind op) \<or> existsOp unsupportedIr op) \<or>
     op \<in> set (update un) \<and> (\<not> updateSupported (kind op) \<or> existsOp unsupportedIr op)) \<longrightarrow>
      (\<exists>err. phaseReify cpl = Inl err))"
proof (intro conjI impI)
  assume "\<not> createSupported (kind op)"
  then show "reifyCreateOp job u op = Inl (UnsupportedCreateOp (kind op))"
    by (rule reifyCreateOp_unsupported)
next
  assume "\<not> updateSupported (kind op)"
  then show "reifyUpdateOp op = Inl (UnsupportedUpdateOp (kind op))"
    by (rule reifyUpdateOp_unsupported)
next
  assume a: "\<not> createSupported (kind op) \<and> transformExpressionsInOp reifyIrExpression op = Inr op'"
  then have "kind op' = kind op"
    by (blast intro: transformOp_kind)
  with a have "reifyCreateOp job u op' = Inl (UnsupportedCreateOp (kind op))"
    using reifyCreateOp_unsupported [of op' job u] by simp
  with a show "reifyCreateOperations job u [op] = Inl (UnsupportedCreateOp (kind op))"
    by simp
next
  assume a: "\<not> updateSupported (kind op) \<and> transformExpressionsInOp reifyIrExpression op = Inr op'"
  then have "kind op' = kind op"
    by (blast intro: transformOp_kind)
  with a have "reifyUpdateOp op' = Inl (UnsupportedUpdateOp (kind op))"
    using reifyUpdateOp_unsupported [of op'] by simp
  with a show "reifyUpdateOperations job u [op] = Inl (UnsupportedUpdateOp (kind op))"
    by simp
next
  assume "transformExpressionsInExprs reifyIrExpression es = Inr es'"
  then show "transformExpressionsInExpression reifyIrExpression (OtherIrExpr k es) =
      Inl (UnsupportedIrExpressionKind k)"
    by simp
next
  assume a: "existsExpr unsupportedIr e"
  show "\<exists>err. transformExpressionsInExpression reifyIrExpression e = Inl err"
  proof (cases "transformExpressionsInExpression reifyIrExpression e")
    case (Inr e')
    from reify_supported(1) [OF Inr] a show ?thesis by simp
  qed simp
next
  assume "op \<in> set ops \<and> (\<not> createSupported (kind op) \<or> existsOp unsupportedIr op)"
  then show "\<exists>err. reifyCreateOperations job u ops = Inl err"
    using reifyCreateOperations_aborts [of op ops job u] by simp
next
  assume "op \<in> set ops \<and> (\<not> updateSupported (kind op) \<or> existsOp unsupportedIr op)"
  then show "\<exists>err. reifyUpdateOperations job u ops = Inl err"
    using reifyUpdateOperations_aborts [of op ops job u] by simp
next
  assume "ListenerOp evName hf hs c \<in> set ops \<and> h \<in> set hs \<and> \<not> updateSupported (kind h)"
  then show "\<exists>err. reifyCreateOperations job u ops = Inl err"
    using reifyCreateOperations_handler_aborts [of evName hf hs c ops h job u] by simp
next
  assume "un \<in> set (units cpl) \<and>
    (op \<in> set (create un) \<and> (\<not> createSupported (kind op) \<or> existsOp unsupportedIr op) \<or>
     op \<in> set (update un) \<and> (\<not> updateSupported (kind op) \<or> existsOp unsupportedIr op))"
  then show "\<exists>err. phaseReify cpl = Inl err"
    using phaseReify_aborts [of un cpl op] by simp
qed simp_all

theorem C8_fatal_on_unknown_witness:
  "reifyCreateOperations exJob exRoot [AdvanceOp 1 None] = Inl (UnsupportedCreateOp Advance) \<and>
   reifyUpdateOperations exJob exRoot [TextOp (Some 0) ''hi'' None] =
     Inl (UnsupportedUpdateOp Text) \<and>
   reifyUpdateOperations exJob exRoot [OtherOp 40] = Inl (UnsupportedUpdateOp (OtherKind 40)) \<and>
   transformExpressionsInExpression reifyIrExpression (OtherIrExpr 30 []) =
     Inl (UnsupportedIrExpressionKind 30) \<and>
   (\<exists>err. transformExpressionsInExpression reifyIrExpression
      (OutputExpr ''BinaryOperatorExpr'' [LiteralExpr (LNum 1), LexicalReadExpr ''x'']) = Inl err) \<and>
   (\<exists>err. reifyUpdateOperations exJob exRoot
      [AdvanceOp 1 None, ClassPropOp ''a'' (PureFunctionParameterExpr 0)] = Inl err) \<and>
   (\<exists>err. reifyCreateOperations exJob exRoot
      [ListenerOp ''click'' None [TextOp (Some 0) ''hi'' None] False] = Inl err) \<and>
   (\<exists>err. phaseReify \<lparr>units = [exBadUnit]\<rparr> = Inl err)"
proof -
  note t1 = C8_fatal_on_unknown [of "AdvanceOp 1 None" exJob exRoot "AdvanceOp 1 None" _ _ _ 30
      "[]" "[]" "OutputExpr ''BinaryOperatorExpr'' [LiteralExpr (LNum 1), LexicalReadExpr ''x'']"
      "[AdvanceOp 1 None]" "''click''" None "[TextOp (Some 0) ''hi'' None]" False
      "TextOp (Some 0) ''hi'' None" exBadUnit "\<lparr>units = [exBadUnit]\<rparr>"]
  note t2 = C8_fatal_on_unknown [of "TextOp (Some 0) ''hi'' None" exJob exRoot
      "TextOp (Some 0) ''hi'' None" _ _ _ _ _ _ _
      "[ListenerOp ''click'' None [TextOp (Some 0) ''hi'' None] False]"
      "''click''" None "[TextOp (Some 0) ''hi'' None]" False "TextOp (Some 0) ''hi'' None"]
  note t3 = C8_fatal_on_unknown [of "OtherOp 40" exJob exRoot "OtherOp 40"]
  note t4 = C8_fatal_on_unknown [of "ClassPropOp ''a'' (PureFunctionParameterExpr 0)" exJob exRoot
      _ _ _ _ _ _ _ _ "[AdvanceOp 1 None, ClassPropOp ''a'' (PureFunctionParameterExpr 0)]"]
  have a: "reifyCreateOperations exJob exRoot [AdvanceOp 1 None] = Inl (UnsupportedCreateOp Advance)"
    using t1 by simp
  have b: "reifyUpdateOperations exJob exRoot [TextOp (Some 0) ''hi'' None] =
     Inl (UnsupportedUpdateOp Text)"
    using t2 by simp
  have c: "reifyUpdateOperations exJob exRoot [OtherOp 40] = Inl (UnsupportedUpdateOp (OtherKind 40))"
    using t3 by simp
  have d: "transformExpressionsInExpression reifyIrExpression (OtherIrExpr 30 []) =
     Inl (UnsupportedIrExpressionKind 30)"
    using t1 by simp
  have e: "\<exists>err. transformExpressionsInExpression reifyIrExpression
      (OutputExpr ''BinaryOperatorExpr'' [LiteralExpr (LNum 1), LexicalReadExpr ''x'']) = Inl err"
    using t1 by simp
  have f: "\<exists>err. reifyUpdateOperations exJob exRoot
      [AdvanceOp 1 None, ClassPropOp ''a'' (PureFunctionParameterExpr 0)] = Inl err"
    using t4 by simp
  have g: "\<exists>err. reifyCreateOperations exJob exRoot
      [ListenerOp ''click'' None [TextOp (Some 0) ''hi'' None] False] = Inl err"
    using t2 by simp
  have h: "\<exists>err. phaseReify \<lparr>units = [exBadUnit]\<rparr> = Inl err"
    using t1 by (simp add: exBadUnit_def)
  from a b c d e f g h show ?thesis
    by blast
qed

text \<open>
  C9, as amended. An element-start and a self-closing element create operation are each
  replaced by an instruction call that carries the slot, the tag name, the attribute-table
  reference, the local-ref-table reference and the source span. A container-start and a
  self-closing container create operation are each replaced by an instruction call that
  carries the slot, the attribute-table reference, the local-ref-table reference and the
  source span, and no tag name. The element-end operation is replaced by an instruction
  call that carries the source span only, the container-end operation by one without
  arguments.
\<close>

theorem C9_element_container_calls:
  "reifyCreateOperations job u [ElementStartOp slot tag attrs refs sp] =
     Inr [call I_elementStart
            [ArgNum slot, ArgStr (Some tag), ArgNum attrs, ArgNum refs, ArgSpan sp]] \<and>
   reifyCreateOperations job u [ElementOp slot tag attrs refs sp] =
     Inr [call I_element
            [ArgNum slot, ArgStr (Some tag), ArgNum attrs, ArgNum refs, ArgSpan sp]] \<and>
   reifyCreateOperations job u [ContainerStartOp slot attrs refs sp] =
     Inr [call I_elementContainerStart [ArgNum slot, ArgNum attrs, ArgNum refs, ArgSpan sp]] \<and>
   reifyCreateOperations job u [ContainerOp slot attrs refs sp] =
     Inr [call I_elementContainer [ArgNum slot, ArgNum attrs, ArgNum refs, ArgSpan sp]] \<and>
   reifyCreateOperations job u [ElementEndOp sp] = Inr [call I_elementEnd [ArgSpan sp]] \<and>
   reifyCreateOperations job u [ContainerEndOp] = Inr [call I_elementContainerEnd []]"
  by (simp add: ng_op_defs)

text \<open>
  C9, as stated, has the container instructions carry a tag name. The call that replaces a
  container-start operation has four arguments, none of them a string; the call that
  replaces an element-start operation has the tag among its five.
\<close>

theorem C9_container_without_tag:
  "reifyCreateOperations exJob exRoot [ContainerStartOp (Some 0) (Some 1) (Some 2) None] =
     Inr [call I_elementContainerStart
            [ArgNum (Some 0), ArgNum (Some 1), ArgNum (Some 2), ArgSpan None]] \<and>
   filter isArgStr
     (callArgs (call I_elementContainerStart
        [ArgNum (Some 0), ArgNum (Some 1), ArgNum (Some 2), ArgSpan None])) = [] \<and>
   reifyCreateOperations exJob exRoot [ElementStartOp (Some 0) ''div'' (Some 1) (Some 2) None] =
     Inr [call I_elementStart
            [ArgNum (Some 0), ArgStr (Some ''div''), ArgNum (Some 1), ArgNum (Some 2),
             ArgSpan None]] \<and>
   filter isArgStr
     (callArgs (call I_elementStart
        [ArgNum (Some 0), ArgStr (Some ''div''), ArgNum (Some 1), ArgNum (Some 2),
         ArgSpan None])) = [ArgStr (Some ''div'')]"
  by (simp add: ng_op_defs)

text \<open>
  C10. Lowering a list of update operations gives the same result in any two jobs and for
  any two units, and so does lowering the handler of a listener. The job and the unit
  matter to the create operations through nested templates only: a create list without
  a nested-template operation is lowered to the same result in any two jobs and units.
\<close>

theorem C10_update_ignores_unit:
  "reifyUpdateOperations job u ops = reifyUpdateOperations job' u' ops \<and>
   reifyListenerHandler job u name ops c = reifyListenerHandler job' u' name ops c \<and>
   ((\<forall>op\<in>set ops'. kind op \<noteq> Template) \<longrightarrow>
      reifyCreateOperations job u ops' = reifyCreateOperations job' u' ops')"
  using reifyUpdateOperations_job_unit [of job u ops job' u']
    reifyListenerHandler_job_unit [of job u name ops c job' u']
    reifyCreateOperations_no_template [of ops' job u job' u']
  by blast

theorem C10_update_ignores_unit_witness:
  "reifyUpdateOperations exJob exRoot (update exRoot) =
     reifyUpdateOperations \<lparr>units = []\<rparr> exHost (update exRoot) \<and>
   reifyUpdateOperations exJob exRoot (update exRoot) = Inr (update exRootReified) \<and>
   reifyCreateOperations exJob exRoot [ElementStartOp (Some 0) ''div'' None None None] =
     reifyCreateOperations \<lparr>units = []\<rparr> exHost [ElementStartOp (Some 0) ''div'' None None None]"
proof -
  have a: "\<forall>op\<in>set [ElementStartOp (Some 0) ''div'' None None None]. kind op \<noteq> Template"
    by simp
  have b: "reifyUpdateOperations exJob exRoot (update exRoot) = Inr (update exRootReified)"
    by (simp add: exRoot_def exRootReified_def ng_op_defs ng_expr_defs)
  from C10_update_ignores_unit [of exJob exRoot "update exRoot" "\<lparr>units = []\<rparr>" exHost _ _
      "[ElementStartOp (Some 0) ''div'' None None None]"] a b
  show ?thesis
    by blast
qed


end
